theory Spec2Isabelle
  imports Complex_Main
begin

section \<open>Data model of the tone curve module\<close>

text \<open>
  The module under study is darktable's tone curve operation, the code that follows the
  database code in \<^verbatim>\<open>src/common/database.c\<close>: \<^verbatim>\<open>legacy_params\<close>, \<^verbatim>\<open>process\<close>,
  \<^verbatim>\<open>commit_params\<close>, \<^verbatim>\<open>scrolled\<close> and \<^verbatim>\<open>dt_iop_tonecurve_motion_notify\<close>.

  C \<^verbatim>\<open>float\<close> values are modelled by \<^typ>\<open>real\<close>: comparisons, branch selection and
  index computation are as in the source, rounding is not modelled, and neither are NaN and
  the infinities, with one exception written out below (\<open>below_xm\<close>). C \<^verbatim>\<open>int\<close> values
  are \<^typ>\<open>int\<close>; loop counters and array offsets that the source keeps non-negative are
  \<^typ>\<open>nat\<close>.

  The header \<^verbatim>\<open>iop/tonecurve.h\<close> is not part of the sources at hand. Its declarations are
  taken from their uses: the channel enumeration \<^verbatim>\<open>ch_L, ch_a, ch_b\<close> (with \<^verbatim>\<open>ch_L = 0\<close>),
  the curve types, a node as a pair of floats, and twenty nodes per channel (the bound the
  editor tests with \<^verbatim>\<open>nodes < 20\<close>).
\<close>

datatype tonecurve_channel_t = ch_L | ch_a | ch_b

datatype curve_type_t = CUBIC_SPLINE | CATMULL_ROM | MONOTONE_HERMITE

record dt_iop_tonecurve_node_t =
  node_x :: real
  node_y :: real

definition DT_IOP_TONECURVE_MAXNODES :: nat where
  "DT_IOP_TONECURVE_MAXNODES = 20"

text \<open>
  \<^verbatim>\<open>dt_iop_tonecurve_params_t\<close>: an array indexed by the channel is a function of the
  channel; the node array of a channel is a list of \<open>DT_IOP_TONECURVE_MAXNODES\<close> nodes of
  which the first \<open>tonecurve_nodes\<close> are in use.
\<close>

record dt_iop_tonecurve_params_t =
  tonecurve :: "tonecurve_channel_t \<Rightarrow> dt_iop_tonecurve_node_t list"
  tonecurve_nodes :: "tonecurve_channel_t \<Rightarrow> int"
  tonecurve_type :: "tonecurve_channel_t \<Rightarrow> curve_type_t"
  tonecurve_autoscale_ab :: int
  tonecurve_preset :: int

text \<open>\<^verbatim>\<open>dt_iop_tonecurve_1_params_t\<close>, the layout of version 1.\<close>

record dt_iop_tonecurve_1_params_t =
  tonecurve_x :: "real list"
  tonecurve_y :: "real list"
  tonecurve_preset_1 :: int

text \<open>
  \<^verbatim>\<open>dt_iop_tonecurve_data_t\<close>, the committed data a pixel pipe piece holds. The curve
  objects of \<^verbatim>\<open>dt_draw_curve_t\<close> are kept abstract (type \<open>'c\<close>); a table of
  \<^verbatim>\<open>0x10000\<close> floats is a function of the index, read at indices \<open>0 .. 0xffff\<close> only.
\<close>

record 'c dt_iop_tonecurve_data_t =
  curve :: "tonecurve_channel_t \<Rightarrow> 'c"
  curve_nodes :: "tonecurve_channel_t \<Rightarrow> int"
  curve_type :: "tonecurve_channel_t \<Rightarrow> curve_type_t"
  table :: "tonecurve_channel_t \<Rightarrow> int \<Rightarrow> real"
  unbounded_coeffs :: "real \<times> real \<times> real"
  autoscale_ab :: int

section \<open>Arithmetic helpers of the source\<close>

text \<open>glib's \<^verbatim>\<open>CLAMP(x, low, high)\<close>: \<^verbatim>\<open>x > high ? high : (x < low ? low : x)\<close>.\<close>

definition CLAMP :: "'a::linorder \<Rightarrow> 'a \<Rightarrow> 'a \<Rightarrow> 'a" where
  "CLAMP v low high = (if v > high then high else if v < low then low else v)"

text \<open>The cast \<^verbatim>\<open>(int)f\<close> of a float truncates towards zero.\<close>

definition int_of_float :: "real \<Rightarrow> int" where
  "int_of_float r = (if 0 \<le> r then \<lfloor>r\<rfloor> else \<lceil>r\<rceil>)"

text \<open>
  \<^verbatim>\<open>const float xm = 1.0f/d->unbounded_coeffs[0]; ... (L_in < xm)\<close>. In float arithmetic
  the reciprocal of zero is plus infinity, which every finite \<^verbatim>\<open>L_in\<close> is below; in HOL
  \<open>1 / 0 = 0\<close>, so that case is written out.
\<close>

definition below_xm :: "real \<Rightarrow> real \<Rightarrow> bool" where
  "below_xm L_in c0 = (if c0 = 0 then True else L_in < 1 / c0)"

section \<open>The pixel transform \<^verbatim>\<open>process\<close>\<close>

text \<open>
  The memory \<^verbatim>\<open>process\<close> works on: the piece's data \<^verbatim>\<open>d\<close>, the input buffer \<^verbatim>\<open>i\<close> and the
  output buffer \<^verbatim>\<open>o\<close>, both flat arrays of floats with \<^verbatim>\<open>ch\<close> floats per pixel.
\<close>

record 'c process_mem =
  piece_data :: "'c dt_iop_tonecurve_data_t"
  buf_i :: "real list"
  buf_o :: "real list"

text \<open>
  The body of the inner loop for the pixel whose first float is at offset \<open>base\<close> of both
  buffers (\<^verbatim>\<open>in\<close> and \<^verbatim>\<open>out\<close> advance together by \<^verbatim>\<open>ch\<close>). \<^verbatim>\<open>dt_iop_eval_exp\<close> is
  declared in a header that is not at hand and is a parameter.
\<close>

definition process_pixel ::
  "(real \<times> real \<times> real \<Rightarrow> real \<Rightarrow> real) \<Rightarrow> real \<Rightarrow> nat \<Rightarrow> 'c process_mem \<Rightarrow> 'c process_mem" where
  "process_pixel dt_iop_eval_exp low_approximation base s =
    (let d = piece_data s;
         inb = buf_i s;
         L_in = inb ! base / 100;
         s1 = s\<lparr>buf_o := (buf_o s)[base :=
                (if below_xm L_in (fst (unbounded_coeffs d))
                 then table d ch_L (CLAMP (int_of_float (L_in * 65535)) 0 65535)
                 else dt_iop_eval_exp (unbounded_coeffs d) L_in)]\<rparr>;
         s2 = (if autoscale_ab d = 0 then
                 (let a_in = (inb ! (base + 1) + 128) / 256;
                      b_in = (inb ! (base + 2) + 128) / 256;
                      o1 = (buf_o s1)[base + 1 := table d ch_a (CLAMP (int_of_float (a_in * 65535)) 0 65535)];
                      o2 = o1[base + 2 := table d ch_b (CLAMP (int_of_float (b_in * 65535)) 0 65535)]
                  in s1\<lparr>buf_o := o2\<rparr>)
               else if L_in > 0.01 then
                 (let o1 = (buf_o s1)[base + 1 := inb ! (base + 1) * (buf_o s1 ! base) / inb ! base];
                      o2 = o1[base + 2 := inb ! (base + 2) * (o1 ! base) / inb ! base]
                  in s1\<lparr>buf_o := o2\<rparr>)
               else
                 (let o0 = (buf_o s1)[base := inb ! base * low_approximation];
                      o1 = o0[base + 1 := inb ! (base + 1) * low_approximation];
                      o2 = o1[base + 2 := inb ! (base + 2) * low_approximation]
                  in s1\<lparr>buf_o := o2\<rparr>))
     in s2\<lparr>buf_o := (buf_o s2)[base + 3 := inb ! (base + 3)]\<rparr>)"

text \<open>
  One row \<open>k\<close>: \<^verbatim>\<open>in = i + k*ch*width\<close>, the threshold value \<^verbatim>\<open>low_approximation\<close> read once,
  then the pixels \<open>j = 0 .. width - 1\<close>.
\<close>

definition process_row ::
  "(real \<times> real \<times> real \<Rightarrow> real \<Rightarrow> real) \<Rightarrow> nat \<Rightarrow> nat \<Rightarrow> nat \<Rightarrow> 'c process_mem \<Rightarrow> 'c process_mem" where
  "process_row dt_iop_eval_exp ch width k s =
    (let low_approximation = table (piece_data s) ch_L (int_of_float (0.01 * 65535))
     in fold (\<lambda>j. process_pixel dt_iop_eval_exp low_approximation (k * ch * width + j * ch))
          [0..<width] s)"

text \<open>
  \<^verbatim>\<open>process\<close>: the rows \<open>k = 0 .. height - 1\<close> of the region (\<^verbatim>\<open>ch = piece->colors\<close>,
  \<^verbatim>\<open>roi_out->width\<close>, \<^verbatim>\<open>roi_out->height\<close>). The rows write disjoint parts of the output,
  so the order in which the parallel loop runs them does not matter; the model runs them in
  order.
\<close>

definition process ::
  "(real \<times> real \<times> real \<Rightarrow> real \<Rightarrow> real) \<Rightarrow> nat \<Rightarrow> nat \<Rightarrow> nat \<Rightarrow> 'c process_mem \<Rightarrow> 'c process_mem" where
  "process dt_iop_eval_exp ch width height s =
    fold (process_row dt_iop_eval_exp ch width) [0..<height] s"


text \<open>
  The tables \<^verbatim>\<open>init_pipe\<close> fills in: the identity for each channel
  (\<^verbatim>\<open>100.0f*k/0x10000\<close> for L, \<^verbatim>\<open>256.0f*k/0x10000 - 128.0f\<close> for a and b).
\<close>

definition init_pipe_table :: "tonecurve_channel_t \<Rightarrow> int \<Rightarrow> real" where
  "init_pipe_table c k =
     (case c of ch_L \<Rightarrow> 100 * real_of_int k / 65536
      | ch_a \<Rightarrow> 256 * real_of_int k / 65536 - 128
      | ch_b \<Rightarrow> 256 * real_of_int k / 65536 - 128)"

section \<open>Default parameters and \<^verbatim>\<open>legacy_params\<close>\<close>

text \<open>
  A C initialiser list for a node array: the nodes given, the rest of the
  \<open>DT_IOP_TONECURVE_MAXNODES\<close> elements zero.
\<close>

definition node_array :: "(real \<times> real) list \<Rightarrow> dt_iop_tonecurve_node_t list" where
  "node_array ps =
     map (\<lambda>(a, b). \<lparr>node_x = a, node_y = b\<rparr>) ps @
     replicate (DT_IOP_TONECURVE_MAXNODES - length ps) \<lparr>node_x = 0, node_y = 0\<rparr>"

text \<open>
  The compound literal that both \<^verbatim>\<open>init\<close> and \<^verbatim>\<open>legacy_params\<close> write: two nodes for L,
  three for a and b, monotone Hermite curves, autoscale on, preset 0.
\<close>

definition default_params :: dt_iop_tonecurve_params_t where
  "default_params =
     \<lparr>tonecurve = (\<lambda>c. case c of
          ch_L \<Rightarrow> node_array [(0, 0), (1, 1)]
        | ch_a \<Rightarrow> node_array [(0, 0), (0.5, 0.5), (1, 1)]
        | ch_b \<Rightarrow> node_array [(0, 0), (0.5, 0.5), (1, 1)]),
      tonecurve_nodes = (\<lambda>c. case c of ch_L \<Rightarrow> 2 | ch_a \<Rightarrow> 3 | ch_b \<Rightarrow> 3),
      tonecurve_type = (\<lambda>c. MONOTONE_HERMITE),
      tonecurve_autoscale_ab = 1,
      tonecurve_preset = 0\<rparr>"

text \<open>The assignments \<^verbatim>\<open>n->tonecurve[ch][k].x = v\<close> and \<^verbatim>\<open>n->tonecurve[ch][k].y = v\<close>.\<close>

definition set_node_x ::
  "tonecurve_channel_t \<Rightarrow> nat \<Rightarrow> real \<Rightarrow> dt_iop_tonecurve_params_t \<Rightarrow> dt_iop_tonecurve_params_t" where
  "set_node_x c k v n =
     n\<lparr>tonecurve := (tonecurve n)(c := (tonecurve n c)[k := (tonecurve n c ! k)\<lparr>node_x := v\<rparr>])\<rparr>"

definition set_node_y ::
  "tonecurve_channel_t \<Rightarrow> nat \<Rightarrow> real \<Rightarrow> dt_iop_tonecurve_params_t \<Rightarrow> dt_iop_tonecurve_params_t" where
  "set_node_y c k v n =
     n\<lparr>tonecurve := (tonecurve n)(c := (tonecurve n c)[k := (tonecurve n c ! k)\<lparr>node_y := v\<rparr>])\<rparr>"

text \<open>
  \<^verbatim>\<open>legacy_params\<close> returns its \<^verbatim>\<open>int\<close> result together with the contents of
  \<^verbatim>\<open>new_params\<close> after the call (\<open>n\<close> is what the buffer held before it).
\<close>

definition legacy_params ::
  "dt_iop_tonecurve_1_params_t \<Rightarrow> int \<Rightarrow> dt_iop_tonecurve_params_t \<Rightarrow> int \<Rightarrow>
     int \<times> dt_iop_tonecurve_params_t" where
  "legacy_params old old_version n new_version =
    (if old_version = 1 \<and> new_version = 3 then
       (let n0 = default_params;
            n1 = fold (\<lambda>k. set_node_x ch_L k (tonecurve_x old ! k)) [0..<6] n0;
            n2 = fold (\<lambda>k. set_node_y ch_L k (tonecurve_y old ! k)) [0..<6] n1;
            n3 = n2\<lparr>tonecurve_nodes := (tonecurve_nodes n2)(ch_L := 6)\<rparr>;
            n4 = n3\<lparr>tonecurve_type := (tonecurve_type n3)(ch_L := CUBIC_SPLINE)\<rparr>;
            n5 = n4\<lparr>tonecurve_autoscale_ab := 1\<rparr>;
            n6 = n5\<lparr>tonecurve_preset := tonecurve_preset_1 old\<rparr>
        in (0, n6))
     else (1, n))"

section \<open>\<^verbatim>\<open>commit_params\<close>\<close>

text \<open>
  The curve library (\<^verbatim>\<open>dt_draw_curve_*\<close>) and the fit \<^verbatim>\<open>dt_iop_estimate_exp\<close> are declared
  in headers that are not at hand; \<^verbatim>\<open>commit_params\<close> is modelled over them as parameters.
  \<^verbatim>\<open>dt_draw_curve_calc_values\<close> is taken by the table of \<^verbatim>\<open>res\<close> values it writes to its
  last argument.
\<close>

record 'c draw_curve_ops =
  dt_draw_curve_new :: "real \<Rightarrow> real \<Rightarrow> curve_type_t \<Rightarrow> 'c"
  dt_draw_curve_add_point :: "'c \<Rightarrow> real \<Rightarrow> real \<Rightarrow> 'c"
  dt_draw_curve_set_point :: "'c \<Rightarrow> nat \<Rightarrow> real \<Rightarrow> real \<Rightarrow> 'c"
  dt_draw_curve_calc_values :: "'c \<Rightarrow> real \<Rightarrow> real \<Rightarrow> nat \<Rightarrow> int \<Rightarrow> real"

text \<open>The body of the loop over the channels.\<close>

definition commit_channel ::
  "'c draw_curve_ops \<Rightarrow> dt_iop_tonecurve_params_t \<Rightarrow> tonecurve_channel_t \<Rightarrow>
     'c dt_iop_tonecurve_data_t \<Rightarrow> 'c dt_iop_tonecurve_data_t" where
  "commit_channel ops p c d =
    (let ks = [0..<nat (tonecurve_nodes p c)];
         d1 = (if curve_type d c \<noteq> tonecurve_type p c \<or> curve_nodes d c \<noteq> tonecurve_nodes p c then
                 d\<lparr>curve := (curve d)(c :=
                      fold (\<lambda>k cv. dt_draw_curve_add_point ops cv
                              (node_x (tonecurve p c ! k)) (node_y (tonecurve p c ! k)))
                        ks (dt_draw_curve_new ops 0 1 (tonecurve_type p c))),
                    curve_nodes := (curve_nodes d)(c := tonecurve_nodes p c),
                    curve_type := (curve_type d)(c := tonecurve_type p c)\<rparr>
               else
                 d\<lparr>curve := (curve d)(c :=
                      fold (\<lambda>k cv. dt_draw_curve_set_point ops cv k
                              (node_x (tonecurve p c ! k)) (node_y (tonecurve p c ! k)))
                        ks (curve d c))\<rparr>)
     in d1\<lparr>table := (table d1)(c := dt_draw_curve_calc_values ops (curve d1 c) 0 1 65536)\<rparr>)"

text \<open>A loop \<^verbatim>\<open>for(k=0; k<0x10000; k++) t[k] = f(t[k])\<close> over one table.\<close>

definition map_table :: "(real \<Rightarrow> real) \<Rightarrow> (int \<Rightarrow> real) \<Rightarrow> int \<Rightarrow> real" where
  "map_table f t k = (if 0 \<le> k \<and> k < 65536 then f (t k) else t k)"

definition commit_params ::
  "'c draw_curve_ops \<Rightarrow> (real list \<Rightarrow> real list \<Rightarrow> nat \<Rightarrow> real \<times> real \<times> real) \<Rightarrow>
     dt_iop_tonecurve_params_t \<Rightarrow> 'c dt_iop_tonecurve_data_t \<Rightarrow> 'c dt_iop_tonecurve_data_t" where
  "commit_params ops dt_iop_estimate_exp p d =
    (let d1 = fold (commit_channel ops p) [ch_L, ch_a, ch_b] d;
         d2 = d1\<lparr>table := (table d1)(ch_L := map_table (\<lambda>v. v * 100) (table d1 ch_L))\<rparr>;
         d3 = d2\<lparr>table := (table d2)(ch_a := map_table (\<lambda>v. v * 256 - 128) (table d2 ch_a))\<rparr>;
         d4 = d3\<lparr>table := (table d3)(ch_b := map_table (\<lambda>v. v * 256 - 128) (table d3 ch_b))\<rparr>;
         d5 = d4\<lparr>autoscale_ab := tonecurve_autoscale_ab p\<rparr>;
         xm = node_x (tonecurve p ch_L ! nat (tonecurve_nodes p ch_L - 1));
         x = [0.7 * xm, 0.8 * xm, 0.9 * xm, 1.0 * xm];
         y = [table d5 ch_L (CLAMP (int_of_float (x ! 0 * 65536)) 0 65535),
              table d5 ch_L (CLAMP (int_of_float (x ! 1 * 65536)) 0 65535),
              table d5 ch_L (CLAMP (int_of_float (x ! 2 * 65536)) 0 65535),
              table d5 ch_L (CLAMP (int_of_float (x ! 3 * 65536)) 0 65535)]
     in d5\<lparr>unbounded_coeffs := dt_iop_estimate_exp x y 4\<rparr>)"

text \<open>
  Modelled from the spec: \<^verbatim>\<open>dt_iop_estimate_exp\<close>, the fit that \<^verbatim>\<open>commit_params\<close> calls,
  is declared in a header that is not at hand. The spec has the luminance looked up below
  \<open>xmax\<close> and extrapolated from \<open>xmax\<close> on, with the fit anchored at \<open>xmax\<close>, the last of the
  sample positions it is given; \<^verbatim>\<open>process\<close> takes that threshold as the reciprocal of the
  first coefficient. So the first coefficient of the fit is the reciprocal of the last
  sample position. How the other two coefficients come out of the samples the spec leaves
  to the solver; they are the parameter \<open>rest\<close>.
\<close>

definition dt_iop_estimate_exp ::
  "(real list \<Rightarrow> real list \<Rightarrow> nat \<Rightarrow> real \<times> real) \<Rightarrow>
     real list \<Rightarrow> real list \<Rightarrow> nat \<Rightarrow> real \<times> real \<times> real" where
  "dt_iop_estimate_exp rest x y num = (1 / x ! (num - 1), rest x y num)"

section \<open>The curve editor: \<^verbatim>\<open>scrolled\<close> and \<^verbatim>\<open>dt_iop_tonecurve_motion_notify\<close>\<close>

text \<open>
  Of \<^verbatim>\<open>dt_iop_tonecurve_gui_data_t\<close> the handlers read and write the active channel, the
  selected node (\<open>-1\<close>: none, \<open>-2\<close>: none and no insertion) and the pointer position; the
  widgets and the drawing caches are left out. The module is its parameters and its gui
  data. Queueing a redraw and adding a history item change neither.
\<close>

record dt_iop_tonecurve_gui_data_t =
  channel :: tonecurve_channel_t
  selected :: int
  mouse_x :: real
  mouse_y :: real

record dt_iop_module_t =
  params :: dt_iop_tonecurve_params_t
  gui_data :: dt_iop_tonecurve_gui_data_t

text \<open>\<^verbatim>\<open>widget->allocation\<close>; of the event its position and whether button 1 is held.\<close>

record GtkAllocation =
  alloc_width :: int
  alloc_height :: int

record GdkEventMotion =
  event_x :: real
  event_y :: real
  button1 :: bool

datatype GdkScrollDirection = GDK_SCROLL_UP | GDK_SCROLL_DOWN | GDK_SCROLL_LEFT | GDK_SCROLL_RIGHT

definition DT_GUI_CURVE_EDITOR_INSET :: int where
  "DT_GUI_CURVE_EDITOR_INSET = 1"

text \<open>glib's \<^verbatim>\<open>MAX(a, b)\<close> is \<^verbatim>\<open>a > b ? a : b\<close> and \<^verbatim>\<open>MIN(a, b)\<close> is \<^verbatim>\<open>a < b ? a : b\<close>
  (named \<open>MAX_float\<close> and \<open>MIN_float\<close> here: \<open>MAX\<close> and \<open>MIN\<close> are binders of HOL).\<close>

definition MAX_float :: "real \<Rightarrow> real \<Rightarrow> real" where
  "MAX_float a b = (if a > b then a else b)"

definition MIN_float :: "real \<Rightarrow> real \<Rightarrow> real" where
  "MIN_float a b = (if a < b then a else b)"

text \<open>Storing a node array back into the parameters, and the node count.\<close>

definition set_tonecurve ::
  "tonecurve_channel_t \<Rightarrow> dt_iop_tonecurve_node_t list \<Rightarrow> dt_iop_tonecurve_params_t \<Rightarrow>
     dt_iop_tonecurve_params_t" where
  "set_tonecurve c tc p = p\<lparr>tonecurve := (tonecurve p)(c := tc)\<rparr>"

definition set_nodes ::
  "tonecurve_channel_t \<Rightarrow> int \<Rightarrow> dt_iop_tonecurve_params_t \<Rightarrow> dt_iop_tonecurve_params_t" where
  "set_nodes c n p = p\<lparr>tonecurve_nodes := (tonecurve_nodes p)(c := n)\<rparr>"

definition scrolled :: "GdkScrollDirection \<Rightarrow> dt_iop_module_t \<Rightarrow> dt_iop_module_t" where
  "scrolled direction self =
    (let p = params self; c = gui_data self; ch = channel c;
         tc = tonecurve p ch; k = nat (selected c)
     in if tonecurve_autoscale_ab p \<noteq> 0 \<and> ch \<noteq> ch_L then self
        else if selected c \<ge> 0 then
          (let tc1 = (if direction = GDK_SCROLL_UP
                      then tc[k := (tc ! k)\<lparr>node_y := MAX_float 0 (node_y (tc ! k) + 0.001)\<rparr>] else tc);
               tc2 = (if direction = GDK_SCROLL_DOWN
                      then tc1[k := (tc1 ! k)\<lparr>node_y := MIN_float 1 (node_y (tc1 ! k) - 0.001)\<rparr>] else tc1)
           in self\<lparr>params := set_tonecurve ch tc2 p\<rparr>)
        else self)"

text \<open>
  The pointer position in curve coordinates:
  \<^verbatim>\<open>mouse_x = CLAMP(event->x - inset, 0, width)\<close>, \<^verbatim>\<open>mx = mouse_x/(float)width\<close>,
  \<^verbatim>\<open>my = 1.0f - mouse_y/(float)height\<close>, with \<^verbatim>\<open>width\<close> and \<^verbatim>\<open>height\<close> the allocation less
  twice the inset. (A realised widget has positive \<^verbatim>\<open>width\<close> and \<^verbatim>\<open>height\<close>; the division
  by zero of a degenerate one is not modelled.)
\<close>

definition motion_mouse_x :: "GtkAllocation \<Rightarrow> GdkEventMotion \<Rightarrow> real" where
  "motion_mouse_x a ev =
     CLAMP (event_x ev - real_of_int DT_GUI_CURVE_EDITOR_INSET) 0
       (real_of_int (alloc_width a - 2 * DT_GUI_CURVE_EDITOR_INSET))"

definition motion_mouse_y :: "GtkAllocation \<Rightarrow> GdkEventMotion \<Rightarrow> real" where
  "motion_mouse_y a ev =
     CLAMP (event_y ev - real_of_int DT_GUI_CURVE_EDITOR_INSET) 0
       (real_of_int (alloc_height a - 2 * DT_GUI_CURVE_EDITOR_INSET))"

definition motion_mx :: "GtkAllocation \<Rightarrow> GdkEventMotion \<Rightarrow> real" where
  "motion_mx a ev =
     motion_mouse_x a ev / real_of_int (alloc_width a - 2 * DT_GUI_CURVE_EDITOR_INSET)"

definition motion_my :: "GtkAllocation \<Rightarrow> GdkEventMotion \<Rightarrow> real" where
  "motion_my a ev =
     1 - motion_mouse_y a ev / real_of_int (alloc_height a - 2 * DT_GUI_CURVE_EDITOR_INSET)"

text \<open>
  The deletion loop \<^verbatim>\<open>for(k=selected; k<nodes-1; k++) tonecurve[k] = tonecurve[k+1]\<close>
  (both fields are copied) and the insertion loop
  \<^verbatim>\<open>for(i=nodes; i>selected; i--) tonecurve[i] = tonecurve[i-1]\<close>.
\<close>

definition shift_down ::
  "nat \<Rightarrow> nat \<Rightarrow> dt_iop_tonecurve_node_t list \<Rightarrow> dt_iop_tonecurve_node_t list" where
  "shift_down sel nodes tc = fold (\<lambda>k t. t[k := t ! (k + 1)]) [sel..<nodes - 1] tc"

definition shift_up ::
  "nat \<Rightarrow> nat \<Rightarrow> dt_iop_tonecurve_node_t list \<Rightarrow> dt_iop_tonecurve_node_t list" where
  "shift_up sel nodes tc = fold (\<lambda>i t. t[i := t ! (i - 1)]) (rev [sel + 1..<nodes + 1]) tc"

text \<open>
  The search loop of the insertion, \<^verbatim>\<open>for(k=1; k<nodes; k++) if(tonecurve[k].x > mx)
  { selected = k; break; }\<close>, over the indices still to visit; \<open>sel\<close> is the selection when
  the loop ends without a hit.
\<close>

fun first_above :: "real \<Rightarrow> dt_iop_tonecurve_node_t list \<Rightarrow> nat list \<Rightarrow> int \<Rightarrow> int" where
  "first_above mx tc [] sel = sel"
| "first_above mx tc (k # ks) sel =
     (if node_x (tc ! k) > mx then int k else first_above mx tc ks sel)"

text \<open>The index at which the insertion branch puts a new node.\<close>

definition insert_index :: "real \<Rightarrow> int \<Rightarrow> dt_iop_tonecurve_node_t list \<Rightarrow> int \<Rightarrow> int" where
  "insert_index mx nodes tc sel =
    (let sel1 = (if node_x (tc ! 0) > mx then 0 else first_above mx tc [1..<nat nodes] sel)
     in if sel1 = -1 then nodes else sel1)"

text \<open>
  The hover loop: the node nearest to the pointer among those closer than \<^verbatim>\<open>.04f\<close>
  (compared by squares), \<open>-1\<close> when there is none. The state of the loop is the pair of
  \<^verbatim>\<open>min\<close> and \<^verbatim>\<open>nearest\<close>; \<open>nearest_step\<close> is its body for the node \<open>k\<close>.
\<close>

definition nearest_step ::
  "real \<Rightarrow> real \<Rightarrow> dt_iop_tonecurve_node_t list \<Rightarrow> nat \<Rightarrow> real \<times> int \<Rightarrow> real \<times> int" where
  "nearest_step mx my tc k acc =
     (let (mn, nearest) = acc;
          dist = (my - node_y (tc ! k)) * (my - node_y (tc ! k))
               + (mx - node_x (tc ! k)) * (mx - node_x (tc ! k))
      in if dist < mn then (dist, int k) else (mn, nearest))"

definition nearest_node :: "real \<Rightarrow> real \<Rightarrow> int \<Rightarrow> dt_iop_tonecurve_node_t list \<Rightarrow> int" where
  "nearest_node mx my nodes tc =
     snd (fold (nearest_step mx my tc) [0..<nat nodes] (0.04 * 0.04, -1))"

definition dt_iop_tonecurve_motion_notify ::
  "GtkAllocation \<Rightarrow> GdkEventMotion \<Rightarrow> dt_iop_module_t \<Rightarrow> dt_iop_module_t" where
  "dt_iop_tonecurve_motion_notify a ev self =
    (let c = gui_data self; p = params self; ch = channel c;
         nodes = tonecurve_nodes p ch; tc = tonecurve p ch
     in if tonecurve_autoscale_ab p \<noteq> 0 \<and> ch \<noteq> ch_L then self
        else
          (let c1 = c\<lparr>mouse_x := motion_mouse_x a ev, mouse_y := motion_mouse_y a ev\<rparr>;
               mx = motion_mx a ev; my = motion_my a ev
           in if button1 ev then
                if selected c1 \<ge> 0 then
                  (let sel = nat (selected c1);
                       tc1 = tc[sel := \<lparr>node_x = mx, node_y = my\<rparr>]
                   in if nodes > 2 \<and>
                         ((selected c1 > 0 \<and> node_x (tc1 ! (sel - 1)) \<ge> mx) \<or>
                          (selected c1 < nodes - 1 \<and> node_x (tc1 ! (sel + 1)) \<le> mx))
                      then \<lparr>params = set_nodes ch (nodes - 1)
                                      (set_tonecurve ch (shift_down sel (nat nodes) tc1) p),
                            gui_data = c1\<lparr>selected := -2\<rparr>\<rparr>
                      else \<lparr>params = set_tonecurve ch tc1 p, gui_data = c1\<rparr>)
                else if nodes < 20 \<and> selected c1 \<ge> -1 then
                  (let sel = insert_index mx nodes tc (selected c1);
                       tc1 = shift_up (nat sel) (nat nodes) tc;
                       tc2 = tc1[nat sel := \<lparr>node_x = mx, node_y = my\<rparr>]
                   in \<lparr>params = set_nodes ch (nodes + 1) (set_tonecurve ch tc2 p),
                       gui_data = c1\<lparr>selected := sel\<rparr>\<rparr>)
                else \<lparr>params = p, gui_data = c1\<rparr>
              else \<lparr>params = p, gui_data = c1\<lparr>selected := nearest_node mx my nodes tc\<rparr>\<rparr>))"

section \<open>Order of the control points\<close>

text \<open>The nodes in use of a channel are strictly increasing in x.\<close>

definition curve_increasing :: "dt_iop_tonecurve_params_t \<Rightarrow> tonecurve_channel_t \<Rightarrow> bool" where
  "curve_increasing p c =
     sorted_wrt (<) (map node_x (take (nat (tonecurve_nodes p c)) (tonecurve p c)))"

text \<open>
  The state of the editor is well formed: every channel has its array of
  \<open>DT_IOP_TONECURVE_MAXNODES\<close> nodes and a node count within it, and the selection is a
  node in use of the active channel or one of the two negative marks.
\<close>

definition editor_ok :: "dt_iop_module_t \<Rightarrow> bool" where
  "editor_ok self =
     ((\<forall>c. length (tonecurve (params self) c) = DT_IOP_TONECURVE_MAXNODES \<and>
           0 \<le> tonecurve_nodes (params self) c \<and> tonecurve_nodes (params self) c \<le> 20) \<and>
      selected (gui_data self) < tonecurve_nodes (params self) (channel (gui_data self)))"

text \<open>
  The handler's test for a changed order, on the nodes as they are before the move: the new
  x \<open>mx\<close> of the selected node \<open>sel\<close> is at or below the x of the node before it, or at or
  above the x of the node after it.
\<close>

definition reaches_neighbour ::
  "real \<Rightarrow> int \<Rightarrow> int \<Rightarrow> dt_iop_tonecurve_node_t list \<Rightarrow> bool" where
  "reaches_neighbour mx sel nodes tc =
     ((sel > 0 \<and> node_x (tc ! (nat sel - 1)) \<ge> mx) \<or>
      (sel < nodes - 1 \<and> node_x (tc ! (nat sel + 1)) \<le> mx))"

text \<open>
  The pointer move \<open>ev\<close> keeps the order of channel \<open>c\<close> in the state \<open>self\<close>, by the
  branch of the handler it takes: a move of the selected node that reaches the x of a
  neighbour finds more than two nodes in the channel (the handler deletes the node only
  then), and an insertion is at an x that no node in use has. Every other move is in order:
  a move of the selected node that stays strictly between its neighbours, a move while
  another channel is active, a move on a channel the autoscale switch locks, a move without
  the button, and a move that neither moves nor inserts a node.
\<close>

definition drag_in_order ::
  "tonecurve_channel_t \<Rightarrow> GtkAllocation \<Rightarrow> GdkEventMotion \<Rightarrow> dt_iop_module_t \<Rightarrow> bool" where
  "drag_in_order c0 a ev self =
    (let c = gui_data self; p = params self; ch = channel c;
         nodes = tonecurve_nodes p ch; tc = tonecurve p ch
     in if ch \<noteq> c0 then True
        else if tonecurve_autoscale_ab p \<noteq> 0 \<and> ch \<noteq> ch_L then True
        else if button1 ev then
          if selected c \<ge> 0
          then nodes > 2 \<or> \<not> reaches_neighbour (motion_mx a ev) (selected c) nodes tc
          else if nodes < 20 \<and> selected c \<ge> -1
          then motion_mx a ev \<notin> set (map node_x (take (nat nodes) tc))
          else True
        else True)"

text \<open>
  A sequence of pointer moves, handled one after the other, each in order for the channel
  \<open>c\<close> in the state it meets.
\<close>

fun drags_in_order ::
  "tonecurve_channel_t \<Rightarrow> GtkAllocation \<Rightarrow> GdkEventMotion list \<Rightarrow> dt_iop_module_t \<Rightarrow> bool" where
  "drags_in_order c a [] self = True"
| "drags_in_order c a (ev # evs) self =
     (drag_in_order c a ev self \<and>
      drags_in_order c a evs (dt_iop_tonecurve_motion_notify a ev self))"

section \<open>The pixels of a region\<close>

text \<open>The offsets of the pixels of row \<open>k\<close>, in the order the inner loop visits them.\<close>

definition row_bases :: "nat \<Rightarrow> nat \<Rightarrow> nat \<Rightarrow> nat list" where
  "row_bases ch width k = map (\<lambda>j. k * ch * width + j * ch) [0..<width]"

section \<open>Example data\<close>

text \<open>
  Concrete inputs at which the theorems below are instantiated: the data of a piece with
  the identity tables of \<^verbatim>\<open>init_pipe\<close>, autoscale on and coefficients whose threshold
  \<^verbatim>\<open>xm\<close> is 1; a region of three pixels in one row, the first with luminance exactly at
  the threshold \<^verbatim>\<open>L_in = 0.01\<close>, the second in mid range, the third below the threshold;
  and a stand-in for \<^verbatim>\<open>dt_iop_eval_exp\<close>.
\<close>

definition example_data :: "unit dt_iop_tonecurve_data_t" where
  "example_data =
     \<lparr>curve = (\<lambda>c. ()), curve_nodes = (\<lambda>c. case c of ch_L \<Rightarrow> 2 | ch_a \<Rightarrow> 3 | ch_b \<Rightarrow> 3),
      curve_type = (\<lambda>c. MONOTONE_HERMITE), table = init_pipe_table,
      unbounded_coeffs = (1, 100, 1), autoscale_ab = 1\<rparr>"

definition example_mem :: "unit process_mem" where
  "example_mem =
     \<lparr>piece_data = example_data, buf_i = [1, 2, 3, 4, 50, 10, -10, 1, 0.5, 2, 3, 1],
      buf_o = [0, 0, 0, 0, 0, 0, 0, 0, 0, 0, 0, 0]\<rparr>"

definition example_eval_exp :: "real \<times> real \<times> real \<Rightarrow> real \<Rightarrow> real" where
  "example_eval_exp c v = fst (snd c) * (v * fst c)"


text \<open>Parameters of version 1, for the migration.\<close>

definition example_old_params :: dt_iop_tonecurve_1_params_t where
  "example_old_params =
     \<lparr>tonecurve_x = [0, 0.08, 0.4, 0.6, 0.92, 1], tonecurve_y = [0, 0.05, 0.37, 0.63, 0.95, 1],
      tonecurve_preset_1 = 7\<rparr>"

text \<open>
  For the editor: a widget of 258 by 258 pixels, so that the curve area is 256 pixels wide
  and high and the pointer at pixel \<open>1 + 256 u\<close> is at the curve coordinate \<open>u\<close>; the
  module with its default parameters, a given active channel, selection and autoscale flag
  (the pointer where \<^verbatim>\<open>gui_init\<close> puts it); a module whose luminance curve has all twenty
  nodes; and one gesture on a three node curve: hover over the middle node, drag it to the
  right, drag it onto the last node's x, move away, press and drag in the open.
\<close>

definition example_alloc :: GtkAllocation where
  "example_alloc = \<lparr>alloc_width = 258, alloc_height = 258\<rparr>"

definition example_module :: "tonecurve_channel_t \<Rightarrow> int \<Rightarrow> int \<Rightarrow> dt_iop_module_t" where
  "example_module ch sel autoscale =
     \<lparr>params = default_params\<lparr>tonecurve_autoscale_ab := autoscale\<rparr>,
      gui_data = \<lparr>channel = ch, selected = sel, mouse_x = -1, mouse_y = -1\<rparr>\<rparr>"

definition full_module :: dt_iop_module_t where
  "full_module =
     \<lparr>params = default_params
        \<lparr>tonecurve := (tonecurve default_params)
           (ch_L := node_array (map (\<lambda>k. (real k / 19, real k / 19)) [0..<20])),
         tonecurve_nodes := (tonecurve_nodes default_params)(ch_L := 20)\<rparr>,
      gui_data = \<lparr>channel = ch_L, selected = -1, mouse_x = -1, mouse_y = -1\<rparr>\<rparr>"

definition example_drag :: "GdkEventMotion list" where
  "example_drag =
     [\<lparr>event_x = 129, event_y = 129, button1 = False\<rparr>,
      \<lparr>event_x = 193, event_y = 65, button1 = True\<rparr>,
      \<lparr>event_x = 257, event_y = 65, button1 = True\<rparr>,
      \<lparr>event_x = 65, event_y = 65, button1 = False\<rparr>,
      \<lparr>event_x = 65, event_y = 65, button1 = True\<rparr>]"

text \<open>
  For \<^verbatim>\<open>commit_params\<close>: a stand-in for the curve library that keeps the nodes of a curve
  in a list and samples the straight line from \<open>lo\<close> to \<open>hi\<close>, a stand-in for the fit that
  returns the reciprocal of the last x, the last sample and the first sample, and the data
  of a piece before the first commit.
\<close>

definition example_curve_ops :: "(real \<times> real) list draw_curve_ops" where
  "example_curve_ops =
     \<lparr>dt_draw_curve_new = (\<lambda>lo hi t. []),
      dt_draw_curve_add_point = (\<lambda>cv px py. cv @ [(px, py)]),
      dt_draw_curve_set_point = (\<lambda>cv k px py. cv[k := (px, py)]),
      dt_draw_curve_calc_values = (\<lambda>cv lo hi res k. lo + (hi - lo) * real_of_int k / real res)\<rparr>"

definition example_estimate_exp :: "real list \<Rightarrow> real list \<Rightarrow> nat \<Rightarrow> real \<times> real \<times> real" where
  "example_estimate_exp xs ys n = (1 / xs ! (n - 1), ys ! (n - 1), ys ! 0)"

definition example_piece :: "(real \<times> real) list dt_iop_tonecurve_data_t" where
  "example_piece =
     \<lparr>curve = (\<lambda>c. []), curve_nodes = (\<lambda>c. 0), curve_type = (\<lambda>c. MONOTONE_HERMITE),
      table = init_pipe_table, unbounded_coeffs = (0, 0, 0), autoscale_ab = 1\<rparr>"



section \<open>Properties of the pixel transform\<close>

lemma process_pixel_piece_data [simp]:
  "piece_data (process_pixel e l b s) = piece_data s"
  by (simp add: process_pixel_def Let_def)

lemma process_pixel_buf_i [simp]:
  "buf_i (process_pixel e l b s) = buf_i s"
  by (simp add: process_pixel_def Let_def)

lemma process_pixel_length [simp]:
  "length (buf_o (process_pixel e l b s)) = length (buf_o s)"
  by (simp add: process_pixel_def Let_def)

lemma process_pixel_other:
  "i < b \<or> b + 3 < i \<Longrightarrow> buf_o (process_pixel e l b s) ! i = buf_o s ! i"
  by (auto simp add: process_pixel_def Let_def)

lemma process_pixel_indep:
  assumes "piece_data s = piece_data s'" "buf_i s = buf_i s'"
    "b + 3 < length (buf_o s)" "b + 3 < length (buf_o s')" "c < 4"
  shows "buf_o (process_pixel e l b s) ! (b + c) = buf_o (process_pixel e l b s') ! (b + c)"
proof -
  from \<open>c < 4\<close> consider "c = 0" | "c = 1" | "c = 2" | "c = 3" by linarith
  then show ?thesis
    using assms(1-4) by cases (simp_all add: process_pixel_def Let_def)
qed


lemma fold_pixels_frame [simp]:
  "piece_data (fold (process_pixel e l) bs s) = piece_data s"
  "buf_i (fold (process_pixel e l) bs s) = buf_i s"
  "length (buf_o (fold (process_pixel e l) bs s)) = length (buf_o s)"
  by (induction bs arbitrary: s) simp_all

lemma fold_pixels_nth:
  assumes "4 \<le> ch" "\<forall>b\<in>set bs. ch dvd b \<and> b + 3 < length (buf_o s)" "b \<in> set bs" "c < 4"
  shows "buf_o (fold (process_pixel e l) bs s) ! (b + c) = buf_o (process_pixel e l b s) ! (b + c)"
  using assms(2,3)
proof (induction bs rule: rev_induct)
  case Nil
  then show ?case by simp
next
  case (snoc b' bs)
  let ?t = "fold (process_pixel e l) bs s"
  have len: "b + 3 < length (buf_o s)" "b' + 3 < length (buf_o s)"
    using snoc.prems by auto
  show ?case
  proof (cases "b = b'")
    case True
    have "buf_o (process_pixel e l b ?t) ! (b + c) = buf_o (process_pixel e l b s) ! (b + c)"
      using len \<open>c < 4\<close> by (intro process_pixel_indep) simp_all
    with True show ?thesis by simp
  next
    case False
    then have mem: "b \<in> set bs" using snoc.prems by auto
    from snoc.prems have "ch dvd b" "ch dvd b'" by auto
    then obtain p p' where pp: "b = ch * p" "b' = ch * p'" by (auto simp: dvd_def)
    with False have "p \<noteq> p'" by auto
    then have "p < p' \<or> p' < p" by linarith
    then have "b + ch \<le> b' \<or> b' + ch \<le> b"
    proof
      assume "p < p'"
      then have "Suc p \<le> p'" by simp
      then have "ch * Suc p \<le> ch * p'" by (rule mult_le_mono2)
      then show ?thesis using pp by simp
    next
      assume "p' < p"
      then have "Suc p' \<le> p" by simp
      then have "ch * Suc p' \<le> ch * p" by (rule mult_le_mono2)
      then show ?thesis using pp by simp
    qed
    with \<open>4 \<le> ch\<close> \<open>c < 4\<close> have "b + c < b' \<or> b' + 3 < b + c" by linarith
    then have "buf_o (process_pixel e l b' ?t) ! (b + c) = buf_o ?t ! (b + c)"
      by (rule process_pixel_other)
    also have "\<dots> = buf_o (process_pixel e l b s) ! (b + c)"
      using snoc.IH snoc.prems mem by simp
    finally show ?thesis by simp
  qed
qed

lemma process_row_fold:
  "process_row e ch width k s =
     fold (process_pixel e (table (piece_data s) ch_L (int_of_float (0.01 * 65535))))
       (row_bases ch width k) s"
  by (simp add: process_row_def row_bases_def fold_map comp_def)

lemma process_fold:
  "process e ch width height s =
     fold (process_pixel e (table (piece_data s) ch_L (int_of_float (0.01 * 65535))))
       (concat (map (row_bases ch width) [0..<height])) s"
proof (induction height)
  case 0
  then show ?case by (simp add: process_def)
next
  case (Suc h)
  have "process e ch width (Suc h) s = process_row e ch width h (process e ch width h s)"
    by (simp add: process_def)
  then show ?case
    by (simp add: Suc process_row_fold)
qed

lemma base_in_region:
  fixes k j ch width height :: nat
  assumes "k < height" "j < width" "0 < ch"
  shows "k * ch * width + j * ch + ch \<le> height * width * ch"
proof -
  have "k * width + j + 1 \<le> k * width + width" using assms by simp
  also have "\<dots> = Suc k * width" by simp
  also have "\<dots> \<le> height * width" using assms by (intro mult_le_mono1) simp
  finally have "(k * width + j + 1) * ch \<le> height * width * ch" by (rule mult_le_mono1)
  then show ?thesis by (simp add: algebra_simps)
qed

lemma process_nth:
  assumes "4 \<le> ch" "k < height" "j < width" "height * width * ch \<le> length (buf_o s)" "c < 4"
  shows "buf_o (process e ch width height s) ! (k * ch * width + j * ch + c) =
         buf_o (process_pixel e (table (piece_data s) ch_L (int_of_float (0.01 * 65535)))
                  (k * ch * width + j * ch) s) ! (k * ch * width + j * ch + c)"
  unfolding process_fold
proof (rule fold_pixels_nth [OF assms(1) _ _ assms(5)])
  show "k * ch * width + j * ch \<in> set (concat (map (row_bases ch width) [0..<height]))"
    using assms(2,3) by (auto simp: row_bases_def intro!: bexI [of _ k] image_eqI [of _ _ j])
  show "\<forall>b\<in>set (concat (map (row_bases ch width) [0..<height])).
          ch dvd b \<and> b + 3 < length (buf_o s)"
  proof
    fix b assume "b \<in> set (concat (map (row_bases ch width) [0..<height]))"
    then obtain k' j' where kj: "k' < height" "j' < width" "b = k' * ch * width + j' * ch"
      by (auto simp: row_bases_def)
    have "b + ch \<le> height * width * ch"
      using base_in_region [OF kj(1,2)] assms(1) kj(3) by simp
    with assms(1,4) have "b + 3 < length (buf_o s)" by linarith
    moreover have "ch dvd b" using kj(3) by simp
    ultimately show "ch dvd b \<and> b + 3 < length (buf_o s)" by simp
  qed
qed

lemma process_pixel_out0:
  assumes "b + 3 < length (buf_o s)"
  shows "buf_o (process_pixel e l b s) ! b =
    (if autoscale_ab (piece_data s) \<noteq> 0 \<and> \<not> buf_i s ! b / 100 > 0.01 then buf_i s ! b * l
     else if below_xm (buf_i s ! b / 100) (fst (unbounded_coeffs (piece_data s)))
     then table (piece_data s) ch_L (CLAMP (int_of_float (buf_i s ! b / 100 * 65535)) 0 65535)
     else e (unbounded_coeffs (piece_data s)) (buf_i s ! b / 100))"
  using assms by (simp add: process_pixel_def Let_def)

lemma process_pixel_out1:
  assumes "b + 3 < length (buf_o s)" "autoscale_ab (piece_data s) \<noteq> 0"
  shows "buf_o (process_pixel e l b s) ! (b + 1) =
    (if buf_i s ! b / 100 > 0.01
     then buf_i s ! (b + 1) * (buf_o (process_pixel e l b s) ! b) / buf_i s ! b
     else buf_i s ! (b + 1) * l)"
  using assms by (simp add: process_pixel_def Let_def)

lemma process_pixel_out2:
  assumes "b + 3 < length (buf_o s)" "autoscale_ab (piece_data s) \<noteq> 0"
  shows "buf_o (process_pixel e l b s) ! (b + 2) =
    (if buf_i s ! b / 100 > 0.01
     then buf_i s ! (b + 2) * (buf_o (process_pixel e l b s) ! b) / buf_i s ! b
     else buf_i s ! (b + 2) * l)"
  using assms by (simp add: process_pixel_def Let_def)

lemma process_pixel_out3:
  assumes "b + 3 < length (buf_o s)"
  shows "buf_o (process_pixel e l b s) ! (b + 3) = buf_i s ! (b + 3)"
  using assms by (simp add: process_pixel_def Let_def)

lemma process_frame:
  "piece_data (process e ch width height s) = piece_data s"
  "buf_i (process e ch width height s) = buf_i s"
  by (simp_all add: process_fold)

lemma region_pixel_fits:
  assumes "4 \<le> ch" "k < height" "j < width" "height * width * ch \<le> length (buf_o s)"
  shows "k * ch * width + j * ch + 3 < length (buf_o s)"
  using base_in_region [OF assms(2,3), of ch] assms(1,4) by linarith

text \<open>
  Claim C1. For every pixel of the region processed with autoscale on: when the normalised
  input luminance \<open>L_in = in[0]/100\<close> is strictly above \<open>0.01\<close>, both chroma outputs are
  the input chroma times the output luminance divided by the input luminance; when
  \<open>L_in \<le> 0.01\<close>, the threshold itself included, each of the three outputs is the input
  of its channel times the luminance table's value at index \<open>\<lfloor>0.01 * 65535\<rfloor>\<close>, and nothing
  is divided by the input luminance. The pixel \<open>(k, j)\<close> lies in the region, a pixel holds
  its four channels (\<open>4 \<le> ch\<close>) and the output buffer holds the region.
\<close>

theorem process_autoscale_chroma:
  fixes s :: "'c process_mem" and e :: "real \<times> real \<times> real \<Rightarrow> real \<Rightarrow> real"
    and ch k j width height :: nat
  assumes "autoscale_ab (piece_data s) \<noteq> 0"
    and "4 \<le> ch" and "k < height" and "j < width"
    and "height * width * ch \<le> length (buf_o s)"
  defines "base \<equiv> k * ch * width + j * ch"
  defines "out \<equiv> buf_o (process e ch width height s)"
  defines "inb \<equiv> buf_i s"
  shows "(inb ! base / 100 > 0.01 \<longrightarrow>
            out ! (base + 1) = inb ! (base + 1) * out ! base / inb ! base \<and>
            out ! (base + 2) = inb ! (base + 2) * out ! base / inb ! base) \<and>
         (inb ! base / 100 \<le> 0.01 \<longrightarrow>
            out ! base = inb ! base * table (piece_data s) ch_L \<lfloor>0.01 * 65535 :: real\<rfloor> \<and>
            out ! (base + 1) = inb ! (base + 1) * table (piece_data s) ch_L \<lfloor>0.01 * 65535 :: real\<rfloor> \<and>
            out ! (base + 2) = inb ! (base + 2) * table (piece_data s) ch_L \<lfloor>0.01 * 65535 :: real\<rfloor>)"
proof -
  let ?l = "table (piece_data s) ch_L (int_of_float (0.01 * 65535))"
  let ?p = "buf_o (process_pixel e ?l base s)"
  have fits: "base + 3 < length (buf_o s)"
    unfolding base_def using assms(2-5) by (rule region_pixel_fits)
  have nth: "out ! (base + c) = ?p ! (base + c)" if "c < 4" for c
    unfolding out_def base_def using assms(2-5) that by (rule process_nth)
  have o0: "out ! base = ?p ! base" using nth [of 0] by simp
  have o1: "out ! (base + 1) = ?p ! (base + 1)" using nth [of 1] by simp
  have o2: "out ! (base + 2) = ?p ! (base + 2)" using nth [of 2] by simp
  have l: "?l = table (piece_data s) ch_L \<lfloor>0.01 * 65535 :: real\<rfloor>"
    by (simp add: int_of_float_def)
  show ?thesis
    unfolding o0 o1 o2 l [symmetric]
    using process_pixel_out0 [OF fits, of e ?l] process_pixel_out1 [OF fits assms(1), of e ?l]
      process_pixel_out2 [OF fits assms(1), of e ?l] assms(1)
    by (simp add: inb_def)
qed

text \<open>
  The theorem at the example region: its first pixel is exactly at the threshold and takes
  the threshold branch, its second pixel takes the ratio branch.
\<close>

theorem process_autoscale_chroma_witness:
  "autoscale_ab (piece_data example_mem) \<noteq> 0 \<and>
   buf_i example_mem ! 0 / 100 \<le> 0.01 \<and>
   buf_o (process example_eval_exp 4 3 1 example_mem) ! 0 = 1 * (100 * 655 / 65536) \<and>
   buf_o (process example_eval_exp 4 3 1 example_mem) ! 1 = 2 * (100 * 655 / 65536) \<and>
   buf_o (process example_eval_exp 4 3 1 example_mem) ! 2 = 3 * (100 * 655 / 65536) \<and>
   buf_i example_mem ! 4 / 100 > 0.01 \<and>
   buf_o (process example_eval_exp 4 3 1 example_mem) ! 5 =
     10 * buf_o (process example_eval_exp 4 3 1 example_mem) ! 4 / 50 \<and>
   buf_o (process example_eval_exp 4 3 1 example_mem) ! 6 =
     - 10 * buf_o (process example_eval_exp 4 3 1 example_mem) ! 4 / 50"
proof -
  have m: "piece_data example_mem = example_data"
    "buf_i example_mem = [1, 2, 3, 4, 50, 10, -10, 1, 0.5, 2, 3, 1]"
    "length (buf_o example_mem) = 12"
    by (simp_all add: example_mem_def)
  have d: "autoscale_ab example_data = 1" "table example_data ch_L 655 = 100 * 655 / 65536"
    by (simp_all add: example_data_def init_pipe_table_def)
  show ?thesis
    using process_autoscale_chroma [where s = example_mem and ch = 4 and k = 0 and j = 0
      and width = 3 and height = 1 and e = example_eval_exp]
    process_autoscale_chroma [where s = example_mem and ch = 4 and k = 0 and j = 1
      and width = 3 and height = 1 and e = example_eval_exp]
    by (simp add: m d eval_nat_numeral)
qed


text \<open>
  Claim C9. For every pixel of every region, the fourth channel of the output is the fourth
  channel of the input; and \<^verbatim>\<open>process\<close> leaves the data it reads as they were: the
  tables, the extrapolation coefficients and the autoscale flag (the whole of the piece's
  data, and the input buffer) are the same after the call.
\<close>

theorem process_frame_alpha:
  fixes s :: "'c process_mem" and e :: "real \<times> real \<times> real \<Rightarrow> real \<Rightarrow> real"
    and ch k j width height :: nat
  defines "s' \<equiv> process e ch width height s"
  shows "(4 \<le> ch \<and> k < height \<and> j < width \<and> height * width * ch \<le> length (buf_o s) \<longrightarrow>
            buf_o s' ! (k * ch * width + j * ch + 3) = buf_i s ! (k * ch * width + j * ch + 3)) \<and>
         table (piece_data s') = table (piece_data s) \<and>
         unbounded_coeffs (piece_data s') = unbounded_coeffs (piece_data s) \<and>
         autoscale_ab (piece_data s') = autoscale_ab (piece_data s) \<and>
         piece_data s' = piece_data s \<and> buf_i s' = buf_i s"
proof -
  have "buf_o s' ! (k * ch * width + j * ch + 3) = buf_i s ! (k * ch * width + j * ch + 3)"
    if h: "4 \<le> ch" "k < height" "j < width" "height * width * ch \<le> length (buf_o s)"
  proof -
    let ?l = "table (piece_data s) ch_L (int_of_float (0.01 * 65535))"
    have "buf_o s' ! (k * ch * width + j * ch + 3) =
          buf_o (process_pixel e ?l (k * ch * width + j * ch) s) ! (k * ch * width + j * ch + 3)"
      unfolding s'_def using h by (intro process_nth) simp_all
    also have "\<dots> = buf_i s ! (k * ch * width + j * ch + 3)"
      using h by (intro process_pixel_out3 region_pixel_fits)
    finally show ?thesis .
  qed
  then show ?thesis by (simp add: s'_def process_frame)
qed

text \<open>The theorem at the second pixel of the example region.\<close>

theorem process_frame_alpha_witness:
  "buf_o (process example_eval_exp 4 3 1 example_mem) ! 7 = 1 \<and>
   table (piece_data (process example_eval_exp 4 3 1 example_mem)) ch_L 655 = 100 * 655 / 65536"
  using process_frame_alpha [where s = example_mem and ch = 4 and k = 0 and j = 1
      and width = 3 and height = 1 and e = example_eval_exp]
  by (simp add: example_mem_def example_data_def init_pipe_table_def)

section \<open>Properties of \<^verbatim>\<open>legacy_params\<close>\<close>

lemma upt_6: "[0..<6] = [0, 1, 2, 3, 4, 5]"
  by (simp add: upt_conv_Cons)

lemma node_array_2: "node_array [(a, b), (c, d)] =
  \<lparr>node_x = a, node_y = b\<rparr> # \<lparr>node_x = c, node_y = d\<rparr> # replicate 18 \<lparr>node_x = 0, node_y = 0\<rparr>"
  by (simp add: node_array_def DT_IOP_TONECURVE_MAXNODES_def)

lemma node_array_3: "node_array [(a, b), (c, d), (e, f)] =
  \<lparr>node_x = a, node_y = b\<rparr> # \<lparr>node_x = c, node_y = d\<rparr> # \<lparr>node_x = e, node_y = f\<rparr> #
  replicate 17 \<lparr>node_x = 0, node_y = 0\<rparr>"
  by (simp add: node_array_def DT_IOP_TONECURVE_MAXNODES_def)

lemma replicate_18: "replicate 18 v = v # v # v # v # replicate 14 v"
  by (simp add: eval_nat_numeral)

lemma legacy_L_nodes:
  "take 6 (tonecurve (snd (legacy_params old 1 n 3)) ch_L) =
     map (\<lambda>k. \<lparr>node_x = tonecurve_x old ! k, node_y = tonecurve_y old ! k\<rparr>) [0..<6]"
  by (simp add: legacy_params_def Let_def upt_6 set_node_x_def set_node_y_def default_params_def
      node_array_2 replicate_18)

text \<open>
  Claim C8. \<^verbatim>\<open>legacy_params\<close> returns 0 exactly for the version pair \<open>(1, 3)\<close> and 1 for
  every other pair. For \<open>(1, 3)\<close> the new parameters have the six old x and y values as
  the first six nodes of the luminance channel, six luminance nodes of type
  \<open>CUBIC_SPLINE\<close>, both chroma channels at the three default nodes
  \<open>(0,0), (0.5,0.5), (1,1)\<close> of type \<open>MONOTONE_HERMITE\<close>, autoscale 1 and the old preset.
  For every other pair the new parameters are left as they were.
\<close>

theorem legacy_params_migration:
  fixes old :: dt_iop_tonecurve_1_params_t and n :: dt_iop_tonecurve_params_t
    and old_version new_version :: int
  defines "r \<equiv> legacy_params old old_version n new_version"
  shows "fst r = (if old_version = 1 \<and> new_version = 3 then 0 else 1) \<and>
    (old_version = 1 \<and> new_version = 3 \<longrightarrow>
       take 6 (tonecurve (snd r) ch_L) =
         map (\<lambda>k. \<lparr>node_x = tonecurve_x old ! k, node_y = tonecurve_y old ! k\<rparr>) [0..<6] \<and>
       tonecurve_nodes (snd r) ch_L = 6 \<and>
       tonecurve_type (snd r) ch_L = CUBIC_SPLINE \<and>
       (\<forall>c. c \<noteq> ch_L \<longrightarrow>
          take 3 (tonecurve (snd r) c) =
            [\<lparr>node_x = 0, node_y = 0\<rparr>, \<lparr>node_x = 0.5, node_y = 0.5\<rparr>, \<lparr>node_x = 1, node_y = 1\<rparr>] \<and>
          tonecurve_nodes (snd r) c = 3 \<and>
          tonecurve_type (snd r) c = MONOTONE_HERMITE) \<and>
       tonecurve_autoscale_ab (snd r) = 1 \<and>
       tonecurve_preset (snd r) = tonecurve_preset_1 old) \<and>
    (\<not> (old_version = 1 \<and> new_version = 3) \<longrightarrow> snd r = n)"
proof -
  have fail: "\<not> (old_version = 1 \<and> new_version = 3) \<Longrightarrow> r = (1, n)"
    by (auto simp add: r_def legacy_params_def)
  have chroma: "take 3 (tonecurve (snd (legacy_params old 1 n 3)) c) =
            [\<lparr>node_x = 0, node_y = 0\<rparr>, \<lparr>node_x = 0.5, node_y = 0.5\<rparr>, \<lparr>node_x = 1, node_y = 1\<rparr>] \<and>
          tonecurve_nodes (snd (legacy_params old 1 n 3)) c = 3 \<and>
          tonecurve_type (snd (legacy_params old 1 n 3)) c = MONOTONE_HERMITE" if "c \<noteq> ch_L" for c
    using that
    by (cases c) (simp_all add: legacy_params_def Let_def upt_6 set_node_x_def set_node_y_def
        default_params_def node_array_3)
  have rest: "fst (legacy_params old 1 n 3) = 0"
    "tonecurve_nodes (snd (legacy_params old 1 n 3)) ch_L = 6"
    "tonecurve_type (snd (legacy_params old 1 n 3)) ch_L = CUBIC_SPLINE"
    "tonecurve_autoscale_ab (snd (legacy_params old 1 n 3)) = 1"
    "tonecurve_preset (snd (legacy_params old 1 n 3)) = tonecurve_preset_1 old"
    by (simp_all add: legacy_params_def Let_def upt_6 set_node_x_def set_node_y_def)
  show ?thesis
  proof (cases "old_version = 1 \<and> new_version = 3")
    case True
    then show ?thesis
      unfolding r_def using legacy_L_nodes [of old n] chroma rest by simp
  next
    case False
    then show ?thesis using fail by auto
  qed
qed

text \<open>The theorem at a version 1 curve, migrated from 1 to 3 and refused from 2 to 3.\<close>

theorem legacy_params_migration_witness:
  "fst (legacy_params example_old_params 1 default_params 3) = 0 \<and>
   take 6 (tonecurve (snd (legacy_params example_old_params 1 default_params 3)) ch_L) =
     [\<lparr>node_x = 0, node_y = 0\<rparr>, \<lparr>node_x = 0.08, node_y = 0.05\<rparr>, \<lparr>node_x = 0.4, node_y = 0.37\<rparr>,
      \<lparr>node_x = 0.6, node_y = 0.63\<rparr>, \<lparr>node_x = 0.92, node_y = 0.95\<rparr>, \<lparr>node_x = 1, node_y = 1\<rparr>] \<and>
   tonecurve_nodes (snd (legacy_params example_old_params 1 default_params 3)) ch_a = 3 \<and>
   tonecurve_preset (snd (legacy_params example_old_params 1 default_params 3)) = 7 \<and>
   fst (legacy_params example_old_params 2 default_params 3) = 1 \<and>
   snd (legacy_params example_old_params 2 default_params 3) = default_params"
  using legacy_params_migration [of example_old_params 1 default_params 3]
    legacy_params_migration [of example_old_params 2 default_params 3]
  by (simp add: upt_6 example_old_params_def)

section \<open>Properties of \<^verbatim>\<open>commit_params\<close>\<close>

lemma commit_channel_other:
  assumes "c' \<noteq> c"
  shows "table (commit_channel ops p c d) c' = table d c'"
    and "curve (commit_channel ops p c d) c' = curve d c'"
  using assms by (simp_all add: commit_channel_def Let_def)

lemma commit_channel_self:
  "table (commit_channel ops p c d) c =
     dt_draw_curve_calc_values ops (curve (commit_channel ops p c d) c) 0 1 65536"
  by (simp add: commit_channel_def Let_def)

lemma commit_channels_L:
  fixes ops :: "'c draw_curve_ops" and p :: dt_iop_tonecurve_params_t
    and d :: "'c dt_iop_tonecurve_data_t"
  defines "d1 \<equiv> commit_channel ops p ch_b (commit_channel ops p ch_a (commit_channel ops p ch_L d))"
  shows "table d1 ch_L = dt_draw_curve_calc_values ops (curve d1 ch_L) 0 1 65536"
  by (simp add: d1_def commit_channel_other commit_channel_self)

text \<open>
  Claim C7. \<^verbatim>\<open>commit_params\<close> recomputes the luminance table (the curve's samples scaled
  by 100) and then sets the extrapolation coefficients to the fit of exactly four samples,
  at the x positions \<open>0.7 xmax\<close>, \<open>0.8 xmax\<close>, \<open>0.9 xmax\<close> and \<open>xmax\<close>, where \<open>xmax\<close> is
  the x of the last node in use of the luminance channel and the sample at \<open>x\<close> is the
  recomputed luminance table at index \<open>(int)(x * 0x10000)\<close> clamped to \<open>[0, 65535]\<close>.
\<close>

theorem commit_params_refit:
  fixes ops :: "'c draw_curve_ops"
    and dt_iop_estimate_exp :: "real list \<Rightarrow> real list \<Rightarrow> nat \<Rightarrow> real \<times> real \<times> real"
    and p :: dt_iop_tonecurve_params_t and d :: "'c dt_iop_tonecurve_data_t"
  defines "d' \<equiv> commit_params ops dt_iop_estimate_exp p d"
  defines "xmax \<equiv> node_x (tonecurve p ch_L ! nat (tonecurve_nodes p ch_L - 1))"
  defines "sample \<equiv> \<lambda>x. table d' ch_L (CLAMP (int_of_float (x * 65536)) 0 65535)"
  shows "unbounded_coeffs d' =
           dt_iop_estimate_exp [0.7 * xmax, 0.8 * xmax, 0.9 * xmax, xmax]
             [sample (0.7 * xmax), sample (0.8 * xmax), sample (0.9 * xmax), sample xmax] 4 \<and>
         table d' ch_L =
           map_table (\<lambda>v. v * 100) (dt_draw_curve_calc_values ops (curve d' ch_L) 0 1 65536)"
proof -
  let ?d1 = "commit_channel ops p ch_b (commit_channel ops p ch_a (commit_channel ops p ch_L d))"
  have t: "table d' ch_L = map_table (\<lambda>v. v * 100) (table ?d1 ch_L)"
    and c: "curve d' ch_L = curve ?d1 ch_L"
    by (simp_all add: d'_def commit_params_def Let_def)
  have u: "unbounded_coeffs d' =
           dt_iop_estimate_exp [0.7 * xmax, 0.8 * xmax, 0.9 * xmax, xmax]
             [sample (0.7 * xmax), sample (0.8 * xmax), sample (0.9 * xmax), sample xmax] 4"
    by (simp add: d'_def xmax_def sample_def commit_params_def Let_def)
  show ?thesis
    using t c u commit_channels_L [of ops p d] by simp
qed

text \<open>
  The theorem on the default parameters, whose last luminance node is at \<open>x = 1\<close>: the
  samples are taken at the indices 45875, 52428, 58982 and, clamped, 65535.
\<close>

theorem commit_params_refit_witness:
  "unbounded_coeffs (commit_params example_curve_ops example_estimate_exp default_params example_piece) =
     (1, 100 * 65535 / 65536, 100 * 45875 / 65536)"
proof -
  have xmax: "node_x (tonecurve default_params ch_L ! nat (tonecurve_nodes default_params ch_L - 1)) = 1"
    by (simp add: default_params_def node_array_2)
  have calc: "dt_draw_curve_calc_values example_curve_ops cv 0 1 65536 = (\<lambda>k. real_of_int k / 65536)" for cv
    by (simp add: example_curve_ops_def)
  show ?thesis
    using commit_params_refit [of example_curve_ops example_estimate_exp default_params example_piece]
    by (simp add: xmax calc map_table_def example_estimate_exp_def CLAMP_def int_of_float_def)
qed

section \<open>The luminance of a pixel on committed data\<close>







section \<open>Properties of the curve editor\<close>

subsection \<open>The two shifting loops\<close>

lemma fold_update_length [simp]:
  "length (fold (\<lambda>k t. t[g k := h k t]) ks tc) = length tc"
  by (induction ks arbitrary: tc) simp_all

lemma shift_down_length [simp]: "length (shift_down sel n tc) = length tc"
  by (simp add: shift_down_def)

lemma fold_shift_down_nth:
  "m < length tc \<Longrightarrow> i < length tc \<Longrightarrow>
     fold (\<lambda>k t. t[k := t ! (k + 1)]) [s..<m] tc ! i =
       (if s \<le> i \<and> i < m then tc ! (i + 1) else tc ! i)"
proof (induction m arbitrary: i)
  case 0
  then show ?case by simp
next
  case (Suc m)
  show ?case
  proof (cases "s \<le> m")
    case True
    let ?t = "fold (\<lambda>k t. t[k := t ! (k + 1)]) [s..<m] tc"
    have m: "m < length tc" and m1: "Suc m < length tc" using Suc.prems by simp_all
    have next_node: "?t ! (m + 1) = tc ! (m + 1)"
      using Suc.IH [OF m, of "m + 1"] m1 by simp
    have "fold (\<lambda>k t. t[k := t ! (k + 1)]) [s..<Suc m] tc = ?t[m := ?t ! (m + 1)]"
      using True by simp
    then show ?thesis
      using next_node Suc.IH [OF m Suc.prems(2)] m True by (cases "i = m") auto
  next
    case False
    then show ?thesis by auto
  qed
qed

lemma shift_down_nth:
  assumes "n \<le> length tc" "i < length tc"
  shows "shift_down sel n tc ! i = (if sel \<le> i \<and> i + 1 < n then tc ! (i + 1) else tc ! i)"
proof (cases "n = 0")
  case True
  then show ?thesis by (simp add: shift_down_def)
next
  case False
  then have "n - 1 < length tc" using assms(1) by simp
  then show ?thesis
    using fold_shift_down_nth [of "n - 1" tc i sel] assms(2) False
    by (auto simp add: shift_down_def)
qed

lemma shift_down_take:
  assumes "sel < n" "n \<le> length tc"
  shows "take (n - 1) (shift_down sel n tc) = take sel tc @ drop (Suc sel) (take n tc)"
proof (rule nth_equalityI)
  show "length (take (n - 1) (shift_down sel n tc)) = length (take sel tc @ drop (Suc sel) (take n tc))"
    using assms by simp
next
  fix i assume "i < length (take (n - 1) (shift_down sel n tc))"
  then have i: "i < n - 1" by simp
  then have "i < length tc" using assms by simp
  then show "take (n - 1) (shift_down sel n tc) ! i = (take sel tc @ drop (Suc sel) (take n tc)) ! i"
    using i assms by (auto simp add: shift_down_nth nth_append)
qed

lemma shift_up_length [simp]: "length (shift_up sel n tc) = length tc"
  by (simp add: shift_up_def)

lemma fold_shift_up_nth:
  "n < length tc \<Longrightarrow> 0 < l \<Longrightarrow> i < length tc \<Longrightarrow>
     fold (\<lambda>i t. t[i := t ! (i - 1)]) (rev [l..<Suc n]) tc ! i =
       (if l \<le> i \<and> i \<le> n then tc ! (i - 1) else tc ! i)"
proof (induction n arbitrary: tc)
  case 0
  then show ?case by simp
next
  case (Suc n)
  show ?case
  proof (cases "l \<le> Suc n")
    case True
    let ?tc = "tc[Suc n := tc ! n]"
    have "fold (\<lambda>i t. t[i := t ! (i - 1)]) (rev [l..<Suc (Suc n)]) tc =
          fold (\<lambda>i t. t[i := t ! (i - 1)]) (rev [l..<Suc n]) ?tc"
      using True by simp
    moreover have "fold (\<lambda>i t. t[i := t ! (i - 1)]) (rev [l..<Suc n]) ?tc ! i =
       (if l \<le> i \<and> i \<le> n then ?tc ! (i - 1) else ?tc ! i)"
      using Suc.prems by (intro Suc.IH) simp_all
    ultimately show ?thesis
      using Suc.prems True by (auto simp add: nth_list_update)
  next
    case False
    then show ?thesis by auto
  qed
qed

lemma shift_up_nth:
  assumes "n < length tc" "i < length tc"
  shows "shift_up sel n tc ! i = (if sel < i \<and> i \<le> n then tc ! (i - 1) else tc ! i)"
  using fold_shift_up_nth [OF assms(1) _ assms(2), of "sel + 1"]
  by (auto simp add: shift_up_def)

lemma shift_up_take:
  assumes "k \<le> n" "n < length tc"
  shows "take (n + 1) ((shift_up k n tc)[k := v]) = take k tc @ [v] @ drop k (take n tc)"
proof (rule nth_equalityI)
  show "length (take (n + 1) ((shift_up k n tc)[k := v])) = length (take k tc @ [v] @ drop k (take n tc))"
    using assms by simp
next
  fix i assume "i < length (take (n + 1) ((shift_up k n tc)[k := v]))"
  then have i: "i \<le> n" by simp
  then have "i < length tc" using assms by simp
  then show "take (n + 1) ((shift_up k n tc)[k := v]) ! i = (take k tc @ [v] @ drop k (take n tc)) ! i"
    using i assms by (auto simp add: shift_up_nth nth_append nth_list_update nth_Cons')
qed

subsection \<open>Strictly increasing lists\<close>

lemma increasing_remove:
  fixes xs :: "real list"
  assumes "sorted_wrt (<) xs"
  shows "sorted_wrt (<) (take s xs @ drop (Suc s) xs)"
proof -
  have "sorted_wrt (<) (take s xs @ drop s xs)" using assms by simp
  then have cross: "\<forall>a\<in>set (take s xs). \<forall>b\<in>set (drop s xs). a < b"
    by (simp only: sorted_wrt_append) simp
  have "set (drop (Suc s) xs) \<subseteq> set (drop s xs)"
    by (rule set_drop_subset_set_drop) simp
  with cross have "\<forall>a\<in>set (take s xs). \<forall>b\<in>set (drop (Suc s) xs). a < b" by blast
  then show ?thesis
    using assms by (simp add: sorted_wrt_append sorted_wrt_take sorted_wrt_drop)
qed

lemma increasing_insert:
  fixes xs :: "real list"
  assumes "sorted_wrt (<) xs" "k \<le> length xs"
    and below: "\<forall>i<k. xs ! i < m" and above: "k < length xs \<longrightarrow> m < xs ! k"
  shows "sorted_wrt (<) (take k xs @ [m] @ drop k xs)"
proof -
  have lo: "\<forall>a\<in>set (take k xs). a < m"
  proof
    fix a assume "a \<in> set (take k xs)"
    then obtain i where "i < length (take k xs)" "a = take k xs ! i"
      by (auto simp add: in_set_conv_nth)
    then show "a < m" using below by simp
  qed
  have hi: "\<forall>b\<in>set (drop k xs). m < b"
  proof
    fix b assume "b \<in> set (drop k xs)"
    then obtain j where j: "j < length (drop k xs)" "b = drop k xs ! j"
      by (auto simp add: in_set_conv_nth)
    then have kj: "k + j < length xs" and b: "b = xs ! (k + j)" by simp_all
    then have "k < length xs" by simp
    with above have m: "m < xs ! k" by simp
    show "m < b"
    proof (cases "j = 0")
      case True with m b show ?thesis by simp
    next
      case False
      then have "xs ! k < xs ! (k + j)"
        using sorted_wrt_nth_less [OF assms(1), of k "k + j"] kj by simp
      with m b show ?thesis by simp
    qed
  qed
  have "\<forall>a\<in>set (take k xs). \<forall>b\<in>set (drop k xs). a < b"
    using lo hi by force
  then show ?thesis
    using assms(1) lo hi by (simp add: sorted_wrt_append sorted_wrt_take sorted_wrt_drop)
qed

lemma increasing_update:
  fixes xs :: "real list"
  assumes "sorted_wrt (<) xs" "s < length xs"
    and left: "0 < s \<longrightarrow> xs ! (s - 1) < m" and right: "s + 1 < length xs \<longrightarrow> m < xs ! (s + 1)"
  shows "sorted_wrt (<) (xs[s := m])"
proof -
  let ?ys = "take s xs @ drop (Suc s) xs"
  have ys: "sorted_wrt (<) ?ys" using assms(1) by (rule increasing_remove)
  have len: "s \<le> length ?ys" using assms(2) by simp
  have below: "\<forall>i<s. ?ys ! i < m"
  proof (intro allI impI)
    fix i assume i: "i < s"
    then have "0 < s" by simp
    with left have l: "xs ! (s - 1) < m" by simp
    have "xs ! i \<le> xs ! (s - 1)"
    proof (cases "i = s - 1")
      case True then show ?thesis by simp
    next
      case False
      then have "xs ! i < xs ! (s - 1)"
        using sorted_wrt_nth_less [OF assms(1), of i "s - 1"] assms(2) i by simp
      then show ?thesis by simp
    qed
    with l i assms(2) show "?ys ! i < m" by (simp add: nth_append)
  qed
  have above: "s < length ?ys \<longrightarrow> m < ?ys ! s"
    using right assms(2) by (auto simp add: nth_append)
  have "sorted_wrt (<) (take s ?ys @ [m] @ drop s ?ys)"
    using ys len below above by (rule increasing_insert)
  moreover have "take s ?ys @ [m] @ drop s ?ys = xs[s := m]"
    using assms(2) by (simp add: upd_conv_take_nth_drop min_def)
  ultimately show ?thesis by simp
qed

subsection \<open>The search for the insertion index and the hover loop\<close>

lemma first_above_upt:
  "first_above mx tc [l..<n] sel = sel \<and> (\<forall>i. l \<le> i \<and> i < n \<longrightarrow> node_x (tc ! i) \<le> mx) \<or>
   (\<exists>j. first_above mx tc [l..<n] sel = int j \<and> l \<le> j \<and> j < n \<and> mx < node_x (tc ! j) \<and>
        (\<forall>i. l \<le> i \<and> i < j \<longrightarrow> node_x (tc ! i) \<le> mx))"
proof (induction "n - l" arbitrary: l)
  case 0
  then show ?case by simp
next
  case (Suc d)
  then have ln: "l < n" and d: "d = n - Suc l" by simp_all
  have unfold: "[l..<n] = l # [Suc l..<n]" using ln by (rule upt_conv_Cons)
  show ?case
  proof (cases "mx < node_x (tc ! l)")
    case True
    then have "first_above mx tc [l..<n] sel = int l" by (simp add: unfold)
    with True ln show ?thesis by auto
  next
    case False
    then have eq: "first_above mx tc [l..<n] sel = first_above mx tc [Suc l..<n] sel"
      by (simp add: unfold)
    have step: "\<And>i. l \<le> i \<Longrightarrow> i = l \<or> Suc l \<le> i" by linarith
    from Suc.hyps(1) [OF d] show ?thesis
    proof
      assume a: "first_above mx tc [Suc l..<n] sel = sel \<and>
        (\<forall>i. Suc l \<le> i \<and> i < n \<longrightarrow> node_x (tc ! i) \<le> mx)"
      have "\<forall>i. l \<le> i \<and> i < n \<longrightarrow> node_x (tc ! i) \<le> mx"
      proof (intro allI impI)
        fix i assume "l \<le> i \<and> i < n"
        then show "node_x (tc ! i) \<le> mx" using a False step [of i] by auto
      qed
      with a eq show ?thesis by simp
    next
      assume "\<exists>j. first_above mx tc [Suc l..<n] sel = int j \<and> Suc l \<le> j \<and> j < n \<and>
        mx < node_x (tc ! j) \<and> (\<forall>i. Suc l \<le> i \<and> i < j \<longrightarrow> node_x (tc ! i) \<le> mx)"
      then obtain j where j: "first_above mx tc [Suc l..<n] sel = int j" "Suc l \<le> j" "j < n"
        "mx < node_x (tc ! j)" "\<forall>i. Suc l \<le> i \<and> i < j \<longrightarrow> node_x (tc ! i) \<le> mx" by blast
      have "\<forall>i. l \<le> i \<and> i < j \<longrightarrow> node_x (tc ! i) \<le> mx"
      proof (intro allI impI)
        fix i assume "l \<le> i \<and> i < j"
        then show "node_x (tc ! i) \<le> mx" using j(5) False step [of i] by auto
      qed
      with j eq show ?thesis by auto
    qed
  qed
qed

lemma insert_index_place:
  fixes mx :: real and nodes :: int and tc :: "dt_iop_tonecurve_node_t list"
  assumes "0 \<le> nodes"
  defines "k \<equiv> insert_index mx nodes tc (-1)"
  shows "0 \<le> k \<and> k \<le> nodes \<and> (\<forall>i<nat k. node_x (tc ! i) \<le> mx) \<and>
         (k < nodes \<longrightarrow> mx < node_x (tc ! nat k))"
proof (cases "mx < node_x (tc ! 0)")
  case True
  then have "k = 0" by (simp add: k_def insert_index_def)
  with True assms(1) show ?thesis by simp
next
  case False
  from first_above_upt [of mx tc 1 "nat nodes" "-1"] show ?thesis
  proof
    assume a: "first_above mx tc [1..<nat nodes] (-1) = -1 \<and>
      (\<forall>i. 1 \<le> i \<and> i < nat nodes \<longrightarrow> node_x (tc ! i) \<le> mx)"
    then have k: "k = nodes" using False by (simp add: k_def insert_index_def)
    have "\<forall>i<nat k. node_x (tc ! i) \<le> mx"
    proof (intro allI impI)
      fix i assume "i < nat k"
      then show "node_x (tc ! i) \<le> mx" using a False k by (cases "i = 0") auto
    qed
    with k assms(1) show ?thesis by simp
  next
    assume "\<exists>j. first_above mx tc [1..<nat nodes] (-1) = int j \<and> 1 \<le> j \<and> j < nat nodes \<and>
      mx < node_x (tc ! j) \<and> (\<forall>i. 1 \<le> i \<and> i < j \<longrightarrow> node_x (tc ! i) \<le> mx)"
    then obtain j where j: "first_above mx tc [1..<nat nodes] (-1) = int j" "1 \<le> j"
      "j < nat nodes" "mx < node_x (tc ! j)" "\<forall>i. 1 \<le> i \<and> i < j \<longrightarrow> node_x (tc ! i) \<le> mx"
      by blast
    then have k: "k = int j" using False by (simp add: k_def insert_index_def)
    have "\<forall>i<nat k. node_x (tc ! i) \<le> mx"
    proof (intro allI impI)
      fix i assume "i < nat k"
      then show "node_x (tc ! i) \<le> mx" using j(5) False k by (cases "i = 0") auto
    qed
    with k j show ?thesis by auto
  qed
qed

lemma nearest_fold_range:
  "snd acc = -1 \<or> (0 \<le> snd acc \<and> snd acc < int l) \<Longrightarrow> l \<le> m \<Longrightarrow>
   snd (fold (nearest_step mx my tc) [l..<m] acc) = -1 \<or>
   (0 \<le> snd (fold (nearest_step mx my tc) [l..<m] acc) \<and>
    snd (fold (nearest_step mx my tc) [l..<m] acc) < int m)"
proof (induction m)
  case 0
  then show ?case by simp
next
  case (Suc m)
  show ?case
  proof (cases "l \<le> m")
    case True
    with Suc show ?thesis
      by (auto simp add: nearest_step_def Let_def split: prod.splits)
  next
    case False
    with Suc.prems have "l = Suc m" by simp
    with Suc.prems show ?thesis by simp
  qed
qed

lemma nearest_node_range:
  "nearest_node mx my nodes tc = -1 \<or>
   (0 \<le> nearest_node mx my nodes tc \<and> nearest_node mx my nodes tc < nodes)"
  using nearest_fold_range [of "(0.04 * 0.04, -1)" 0 "nat nodes" mx my tc]
  by (auto simp add: nearest_node_def split: if_splits)

subsection \<open>The branches of the pointer move handler\<close>

lemma set_tonecurve_simps [simp]:
  "tonecurve (set_tonecurve c tc p) c' = (if c' = c then tc else tonecurve p c')"
  "tonecurve_nodes (set_tonecurve c tc p) = tonecurve_nodes p"
  "tonecurve_type (set_tonecurve c tc p) = tonecurve_type p"
  "tonecurve_autoscale_ab (set_tonecurve c tc p) = tonecurve_autoscale_ab p"
  "tonecurve_preset (set_tonecurve c tc p) = tonecurve_preset p"
  by (simp_all add: set_tonecurve_def)

lemma set_nodes_simps [simp]:
  "tonecurve (set_nodes c n p) = tonecurve p"
  "tonecurve_nodes (set_nodes c n p) c' = (if c' = c then n else tonecurve_nodes p c')"
  "tonecurve_type (set_nodes c n p) = tonecurve_type p"
  "tonecurve_autoscale_ab (set_nodes c n p) = tonecurve_autoscale_ab p"
  "tonecurve_preset (set_nodes c n p) = tonecurve_preset p"
  by (simp_all add: set_nodes_def)

lemma motion_locked:
  assumes "tonecurve_autoscale_ab (params self) \<noteq> 0" "channel (gui_data self) \<noteq> ch_L"
  shows "dt_iop_tonecurve_motion_notify a ev self = self"
  using assms by (simp add: dt_iop_tonecurve_motion_notify_def Let_def)

lemma motion_channel [simp]:
  "channel (gui_data (dt_iop_tonecurve_motion_notify a ev self)) = channel (gui_data self)"
  by (simp add: dt_iop_tonecurve_motion_notify_def Let_def)

lemma motion_hover:
  assumes "\<not> (tonecurve_autoscale_ab (params self) \<noteq> 0 \<and> channel (gui_data self) \<noteq> ch_L)"
    and "\<not> button1 ev"
  shows "params (dt_iop_tonecurve_motion_notify a ev self) = params self"
    and "selected (gui_data (dt_iop_tonecurve_motion_notify a ev self)) =
           nearest_node (motion_mx a ev) (motion_my a ev)
             (tonecurve_nodes (params self) (channel (gui_data self)))
             (tonecurve (params self) (channel (gui_data self)))"
  using assms by (auto simp add: dt_iop_tonecurve_motion_notify_def Let_def)

lemma motion_idle:
  assumes "\<not> (tonecurve_autoscale_ab (params self) \<noteq> 0 \<and> channel (gui_data self) \<noteq> ch_L)"
    and "button1 ev" and "selected (gui_data self) < 0"
    and "\<not> (tonecurve_nodes (params self) (channel (gui_data self)) < 20 \<and> selected (gui_data self) \<ge> -1)"
  shows "params (dt_iop_tonecurve_motion_notify a ev self) = params self"
    and "selected (gui_data (dt_iop_tonecurve_motion_notify a ev self)) = selected (gui_data self)"
  using assms by (auto simp add: dt_iop_tonecurve_motion_notify_def Let_def)

lemma motion_insert:
  fixes a :: GtkAllocation and ev :: GdkEventMotion and self :: dt_iop_module_t
  assumes "\<not> (tonecurve_autoscale_ab (params self) \<noteq> 0 \<and> channel (gui_data self) \<noteq> ch_L)"
    and "button1 ev" and "selected (gui_data self) = -1"
    and "tonecurve_nodes (params self) (channel (gui_data self)) < 20"
  defines "ch \<equiv> channel (gui_data self)"
  defines "nodes \<equiv> tonecurve_nodes (params self) ch"
  defines "tc \<equiv> tonecurve (params self) ch"
  defines "k \<equiv> insert_index (motion_mx a ev) nodes tc (-1)"
  shows "params (dt_iop_tonecurve_motion_notify a ev self) =
           set_nodes ch (nodes + 1)
             (set_tonecurve ch ((shift_up (nat k) (nat nodes) tc)
                [nat k := \<lparr>node_x = motion_mx a ev, node_y = motion_my a ev\<rparr>]) (params self))"
    and "selected (gui_data (dt_iop_tonecurve_motion_notify a ev self)) = k"
  using assms(1-4)
  by (auto simp add: dt_iop_tonecurve_motion_notify_def Let_def ch_def nodes_def tc_def k_def)

lemma motion_move:
  fixes a :: GtkAllocation and ev :: GdkEventMotion and self :: dt_iop_module_t
  assumes "\<not> (tonecurve_autoscale_ab (params self) \<noteq> 0 \<and> channel (gui_data self) \<noteq> ch_L)"
    and "button1 ev" and "selected (gui_data self) \<ge> 0"
  defines "ch \<equiv> channel (gui_data self)"
  defines "nodes \<equiv> tonecurve_nodes (params self) ch"
  defines "sel \<equiv> nat (selected (gui_data self))"
  defines "tc1 \<equiv> (tonecurve (params self) ch)[sel := \<lparr>node_x = motion_mx a ev, node_y = motion_my a ev\<rparr>]"
  defines "gone \<equiv> nodes > 2 \<and>
     ((selected (gui_data self) > 0 \<and> node_x (tc1 ! (sel - 1)) \<ge> motion_mx a ev) \<or>
      (selected (gui_data self) < nodes - 1 \<and> node_x (tc1 ! (sel + 1)) \<le> motion_mx a ev))"
  shows "params (dt_iop_tonecurve_motion_notify a ev self) =
           (if gone then set_nodes ch (nodes - 1)
                           (set_tonecurve ch (shift_down sel (nat nodes) tc1) (params self))
            else set_tonecurve ch tc1 (params self))"
    and "selected (gui_data (dt_iop_tonecurve_motion_notify a ev self)) =
           (if gone then -2 else selected (gui_data self))"
  using assms(1-3)
  by (auto simp add: dt_iop_tonecurve_motion_notify_def Let_def ch_def nodes_def sel_def tc1_def gone_def)

subsection \<open>Evaluating the handler on the examples\<close>

lemma example_pointer:
  "motion_mx example_alloc \<lparr>event_x = 1 + 256 * u, event_y = 1 + 256 * (1 - v), button1 = b\<rparr> =
     CLAMP (256 * u) 0 256 / 256"
  "motion_my example_alloc \<lparr>event_x = 1 + 256 * u, event_y = 1 + 256 * (1 - v), button1 = b\<rparr> =
     1 - CLAMP (256 * (1 - v)) 0 256 / 256"
  by (simp_all add: motion_mx_def motion_my_def motion_mouse_x_def motion_mouse_y_def
      example_alloc_def DT_GUI_CURVE_EDITOR_INSET_def)

lemma node_array_length [simp]:
  "length ps \<le> DT_IOP_TONECURVE_MAXNODES \<Longrightarrow> length (node_array ps) = DT_IOP_TONECURVE_MAXNODES"
  by (simp add: node_array_def)

lemma all_channels: "(\<forall>c. P c) \<longleftrightarrow> P ch_L \<and> P ch_a \<and> P ch_b"
  by (metis tonecurve_channel_t.exhaust)

lemma example_module_ok: "sel < 2 \<Longrightarrow> editor_ok (example_module ch sel autoscale)"
  by (cases ch) (simp_all add: editor_ok_def example_module_def default_params_def all_channels
      node_array_length DT_IOP_TONECURVE_MAXNODES_def)

lemma example_module_increasing: "curve_increasing (params (example_module ch sel autoscale)) c"
  by (cases c) (simp_all add: curve_increasing_def example_module_def default_params_def
      node_array_2 node_array_3 eval_nat_numeral)

lemmas editor_eval =
  dt_iop_tonecurve_motion_notify_def Let_def example_module_def default_params_def
  motion_mx_def motion_my_def motion_mouse_x_def motion_mouse_y_def CLAMP_def example_alloc_def
  DT_GUI_CURVE_EDITOR_INSET_def node_array_2 node_array_3 nearest_node_def nearest_step_def
  upt_conv_Cons insert_index_def shift_up_def shift_down_def set_tonecurve_def set_nodes_def
  drag_in_order_def

subsection \<open>A drag of the middle node past the last one\<close>

text \<open>
  Claim C4, as the code has it. On a channel that takes edits (the luminance channel, or
  any channel while autoscale is off), with button 1 held and node 1 of a three node curve
  selected, a pointer move to an x at or beyond the x of node 2 deletes node 1 by copying
  the later node down, leaves two nodes, and sets the selection to \<open>-2\<close>.
\<close>

theorem drag_past_neighbour_deletes:
  fixes a :: GtkAllocation and ev :: GdkEventMotion and self :: dt_iop_module_t
  defines "ch \<equiv> channel (gui_data self)"
  defines "tc \<equiv> tonecurve (params self) ch"
  defines "self' \<equiv> dt_iop_tonecurve_motion_notify a ev self"
  assumes editable: "\<not> (tonecurve_autoscale_ab (params self) \<noteq> 0 \<and> ch \<noteq> ch_L)"
    and held: "button1 ev"
    and sel: "selected (gui_data self) = 1"
    and three: "tonecurve_nodes (params self) ch = 3"
    and array: "length tc = DT_IOP_TONECURVE_MAXNODES"
    and beyond: "node_x (tc ! 2) \<le> motion_mx a ev"
  shows "tonecurve (params self') ch = tc[1 := tc ! 2] \<and>
         take 2 (tonecurve (params self') ch) = [tc ! 0, tc ! 2] \<and>
         tonecurve_nodes (params self') ch = 2 \<and>
         selected (gui_data self') = -2"
proof -
  let ?new = "\<lparr>node_x = motion_mx a ev, node_y = motion_my a ev\<rparr>"
  have len: "length tc = 20" using array by (simp add: DT_IOP_TONECURVE_MAXNODES_def)
  have ed: "\<not> (tonecurve_autoscale_ab (params self) \<noteq> 0 \<and> channel (gui_data self) \<noteq> ch_L)"
    using editable by (simp add: ch_def)
  have ge: "selected (gui_data self) \<ge> 0" using sel by simp
  have gone: "tonecurve_nodes (params self) (channel (gui_data self)) > 2 \<and>
     ((selected (gui_data self) > 0 \<and>
        node_x ((tonecurve (params self) (channel (gui_data self)))
                  [nat (selected (gui_data self)) := ?new] ! (nat (selected (gui_data self)) - 1))
          \<ge> motion_mx a ev) \<or>
      (selected (gui_data self) < tonecurve_nodes (params self) (channel (gui_data self)) - 1 \<and>
        node_x ((tonecurve (params self) (channel (gui_data self)))
                  [nat (selected (gui_data self)) := ?new] ! (nat (selected (gui_data self)) + 1))
          \<le> motion_mx a ev))"
    using sel three beyond len
    by (simp add: ch_def [symmetric] tc_def [symmetric] numeral_2_eq_2)
  have shift: "shift_down 1 3 (tc[1 := ?new]) = tc[1 := tc ! 2]"
    using len by (simp add: shift_down_def upt_conv_Cons numeral_2_eq_2)
  have p: "params self' = set_nodes ch 2 (set_tonecurve ch (tc[1 := tc ! 2]) (params self))"
    unfolding self'_def motion_move(1) [OF ed held ge]
    using gone sel three shift by (simp add: ch_def [symmetric] tc_def [symmetric])
  have s: "selected (gui_data self') = -2"
    unfolding self'_def motion_move(2) [OF ed held ge] using gone by simp
  have "take 2 (tc[1 := tc ! 2]) = [tc ! 0, tc ! 2]"
    using len by (intro nth_equalityI) (auto simp add: nth_list_update less_Suc_eq numeral_2_eq_2)
  then show ?thesis using p s by simp
qed

text \<open>
  The theorem on the default three node curve of channel a with autoscale off: the middle
  node dragged to \<open>x = 1\<close>, the x of the last node.
\<close>

theorem drag_past_neighbour_deletes_witness:
  "motion_mx example_alloc \<lparr>event_x = 257, event_y = 65, button1 = True\<rparr> = 1 \<and>
   take 2 (tonecurve (params (dt_iop_tonecurve_motion_notify example_alloc
       \<lparr>event_x = 257, event_y = 65, button1 = True\<rparr> (example_module ch_a 1 0))) ch_a) =
     [\<lparr>node_x = 0, node_y = 0\<rparr>, \<lparr>node_x = 1, node_y = 1\<rparr>] \<and>
   tonecurve_nodes (params (dt_iop_tonecurve_motion_notify example_alloc
       \<lparr>event_x = 257, event_y = 65, button1 = True\<rparr> (example_module ch_a 1 0))) ch_a = 2 \<and>
   selected (gui_data (dt_iop_tonecurve_motion_notify example_alloc
       \<lparr>event_x = 257, event_y = 65, button1 = True\<rparr> (example_module ch_a 1 0))) = -2"
proof -
  have mx: "motion_mx example_alloc \<lparr>event_x = 257, event_y = 65, button1 = True\<rparr> = 1"
    using example_pointer(1) [of 1 "3/4" True] by (simp add: CLAMP_def)
  have m: "channel (gui_data (example_module ch_a 1 0)) = ch_a"
    "selected (gui_data (example_module ch_a 1 0)) = 1"
    "tonecurve_autoscale_ab (params (example_module ch_a 1 0)) = 0"
    "tonecurve_nodes (params (example_module ch_a 1 0)) ch_a = 3"
    "tonecurve (params (example_module ch_a 1 0)) ch_a = node_array [(0, 0), (0.5, 0.5), (1, 1)]"
    by (simp_all add: example_module_def default_params_def)
  note n = node_array_3 DT_IOP_TONECURVE_MAXNODES_def
  show ?thesis
    using drag_past_neighbour_deletes [of "example_module ch_a 1 0"
        "\<lparr>event_x = 257, event_y = 65, button1 = True\<rparr>" example_alloc]
    by (simp add: mx m n)
qed

text \<open>
  Claim C4 as stated fails on the default parameters: their three node curves are those of
  channels a and b, which autoscale locks. With node 1 selected and button 1 held, a pointer
  move to \<open>x = 1\<close>, the x of node 2, leaves three nodes and the selection at 1.
\<close>

theorem drag_past_neighbour_deletes_counterexample:
  "button1 \<lparr>event_x = 257, event_y = 65, button1 = True\<rparr> \<and>
   selected (gui_data (example_module ch_a 1 1)) = 1 \<and>
   tonecurve_nodes (params (example_module ch_a 1 1)) ch_a = 3 \<and>
   node_x (tonecurve (params (example_module ch_a 1 1)) ch_a ! 2) \<le>
     motion_mx example_alloc \<lparr>event_x = 257, event_y = 65, button1 = True\<rparr> \<and>
   tonecurve_nodes (params (dt_iop_tonecurve_motion_notify example_alloc
       \<lparr>event_x = 257, event_y = 65, button1 = True\<rparr> (example_module ch_a 1 1))) ch_a = 3 \<and>
   selected (gui_data (dt_iop_tonecurve_motion_notify example_alloc
       \<lparr>event_x = 257, event_y = 65, button1 = True\<rparr> (example_module ch_a 1 1))) = 1 \<and>
   tonecurve (params (dt_iop_tonecurve_motion_notify example_alloc
       \<lparr>event_x = 257, event_y = 65, button1 = True\<rparr> (example_module ch_a 1 1))) ch_a =
     tonecurve (params (example_module ch_a 1 1)) ch_a"
  by (simp add: editor_eval)

subsection \<open>A drag with no node selected\<close>

text \<open>
  Claim C5, as the code has it. With button 1 held and the selection \<open>-1\<close>, on a channel
  that takes edits (the luminance channel, or any channel while autoscale is off): while
  the node count is below 20 a new node \<open>(mx, my)\<close> is put at the
  index \<open>k\<close> that becomes the selection, where \<open>k\<close> is the first index whose node has an
  x above \<open>mx\<close> (every node before it has an x at most \<open>mx\<close>; \<open>k\<close> is the node count
  when no node is above), the nodes from \<open>k\<close> on move up by one and the count grows by
  one; on a three node curve with \<open>mx\<close> from the x of node 0 up to, but not reaching, the
  x of node 1, that index is 1 and the count becomes 4. With twenty nodes, on any channel,
  nothing is inserted and the nodes and counts are as before.
\<close>

theorem drag_inserts_node:
  fixes a :: GtkAllocation and ev :: GdkEventMotion and self :: dt_iop_module_t
  defines "ch \<equiv> channel (gui_data self)"
  defines "tc \<equiv> tonecurve (params self) ch"
  defines "nodes \<equiv> tonecurve_nodes (params self) ch"
  defines "self' \<equiv> dt_iop_tonecurve_motion_notify a ev self"
  defines "k \<equiv> selected (gui_data self')"
  defines "new \<equiv> \<lparr>node_x = motion_mx a ev, node_y = motion_my a ev\<rparr>"
  defines "editable \<equiv> \<not> (tonecurve_autoscale_ab (params self) \<noteq> 0 \<and> ch \<noteq> ch_L)"
  assumes held: "button1 ev"
    and sel: "selected (gui_data self) = -1"
    and count: "0 \<le> nodes"
    and array: "length tc = DT_IOP_TONECURVE_MAXNODES"
  shows "(editable \<and> nodes < 20 \<longrightarrow>
            0 \<le> k \<and> k \<le> nodes \<and>
            (\<forall>i<nat k. node_x (tc ! i) \<le> motion_mx a ev) \<and>
            (k < nodes \<longrightarrow> motion_mx a ev < node_x (tc ! nat k)) \<and>
            take (nat nodes + 1) (tonecurve (params self') ch) =
              take (nat k) tc @ [new] @ drop (nat k) (take (nat nodes) tc) \<and>
            tonecurve_nodes (params self') ch = nodes + 1) \<and>
         (editable \<and> nodes = 3 \<and>
          node_x (tc ! 0) \<le> motion_mx a ev \<and> motion_mx a ev < node_x (tc ! 1) \<longrightarrow>
            k = 1 \<and> tonecurve_nodes (params self') ch = 4 \<and>
            take 4 (tonecurve (params self') ch) = [tc ! 0, new, tc ! 1, tc ! 2]) \<and>
         (nodes = 20 \<longrightarrow>
            tonecurve (params self') = tonecurve (params self) \<and>
            tonecurve_nodes (params self') = tonecurve_nodes (params self) \<and>
            selected (gui_data self') = -1)"
proof -
  have len: "length tc = 20" using array by (simp add: DT_IOP_TONECURVE_MAXNODES_def)
  have ed: "\<not> (tonecurve_autoscale_ab (params self) \<noteq> 0 \<and> channel (gui_data self) \<noteq> ch_L)"
    if editable using that by (simp add: editable_def ch_def)
  have general: "0 \<le> k \<and> k \<le> nodes \<and>
            (\<forall>i<nat k. node_x (tc ! i) \<le> motion_mx a ev) \<and>
            (k < nodes \<longrightarrow> motion_mx a ev < node_x (tc ! nat k)) \<and>
            take (nat nodes + 1) (tonecurve (params self') ch) =
              take (nat k) tc @ [new] @ drop (nat k) (take (nat nodes) tc) \<and>
            tonecurve_nodes (params self') ch = nodes + 1" if e: editable and room: "nodes < 20"
  proof -
    note ed = ed [OF e]
    have room': "tonecurve_nodes (params self) (channel (gui_data self)) < 20"
      using room by (simp add: nodes_def ch_def)
    have k: "k = insert_index (motion_mx a ev) nodes tc (-1)"
      unfolding k_def self'_def motion_insert(2) [OF ed held sel room']
      by (simp add: nodes_def tc_def ch_def)
    have p: "params self' =
           set_nodes ch (nodes + 1)
             (set_tonecurve ch ((shift_up (nat k) (nat nodes) tc) [nat k := new]) (params self))"
      unfolding self'_def motion_insert(1) [OF ed held sel room'] k
      by (simp add: nodes_def tc_def ch_def new_def)
    have place: "0 \<le> k \<and> k \<le> nodes \<and> (\<forall>i<nat k. node_x (tc ! i) \<le> motion_mx a ev) \<and>
         (k < nodes \<longrightarrow> motion_mx a ev < node_x (tc ! nat k))"
      unfolding k using count by (rule insert_index_place)
    have "take (nat nodes + 1) ((shift_up (nat k) (nat nodes) tc) [nat k := new]) =
            take (nat k) tc @ [new] @ drop (nat k) (take (nat nodes) tc)"
      using place room len by (intro shift_up_take) auto
    then show ?thesis using place p by simp
  qed
  have three: "k = 1 \<and> tonecurve_nodes (params self') ch = 4 \<and>
            take 4 (tonecurve (params self') ch) = [tc ! 0, new, tc ! 1, tc ! 2]"
    if e: editable
      and h: "nodes = 3" "node_x (tc ! 0) \<le> motion_mx a ev" "motion_mx a ev < node_x (tc ! 1)"
  proof -
    have g: "0 \<le> k" "k \<le> 3" "\<forall>i<nat k. node_x (tc ! i) \<le> motion_mx a ev"
      "k < 3 \<longrightarrow> motion_mx a ev < node_x (tc ! nat k)"
      "take 4 (tonecurve (params self') ch) = take (nat k) tc @ [new] @ drop (nat k) (take 3 tc)"
      "tonecurve_nodes (params self') ch = 4"
      using general [OF e] h(1) by simp_all
    have "k \<noteq> 0" using g(4) h(2) by auto
    moreover have "\<not> 1 < k"
    proof
      assume "1 < k"
      then have "1 < nat k" by simp
      with g(3) have "node_x (tc ! 1) \<le> motion_mx a ev" by blast
      with h(3) show False by simp
    qed
    ultimately have k1: "k = 1" using g(1) by linarith
    have "take (nat 1) tc @ [new] @ drop (nat 1) (take 3 tc) = [tc ! 0, new, tc ! 1, tc ! 2]"
      using len by (intro nth_equalityI) (auto simp add: nth_append nth_Cons' less_Suc_eq eval_nat_numeral)
    then show ?thesis using g(5,6) k1 by simp
  qed
  have full: "tonecurve (params self') = tonecurve (params self) \<and>
            tonecurve_nodes (params self') = tonecurve_nodes (params self) \<and>
            selected (gui_data self') = -1" if "nodes = 20"
  proof (cases editable)
    case True
    have "\<not> (tonecurve_nodes (params self) (channel (gui_data self)) < 20 \<and> selected (gui_data self) \<ge> -1)"
      using that by (simp add: nodes_def ch_def)
    moreover have "selected (gui_data self) < 0" using sel by simp
    ultimately show ?thesis
      unfolding self'_def using motion_idle [OF ed [OF True] held, of a] sel by simp
  next
    case False
    then have "self' = self"
      unfolding self'_def by (intro motion_locked) (simp_all add: editable_def ch_def)
    then show ?thesis using sel by simp
  qed
  show ?thesis using general three full by blast
qed

text \<open>
  The theorem on the default curve of channel a with autoscale off, the pointer pressed at
  \<open>(1/4, 3/4)\<close>, and on the curve with twenty nodes.
\<close>

theorem drag_inserts_node_witness:
  "motion_mx example_alloc \<lparr>event_x = 65, event_y = 65, button1 = True\<rparr> = 1 / 4 \<and>
   motion_my example_alloc \<lparr>event_x = 65, event_y = 65, button1 = True\<rparr> = 3 / 4 \<and>
   selected (gui_data (dt_iop_tonecurve_motion_notify example_alloc
       \<lparr>event_x = 65, event_y = 65, button1 = True\<rparr> (example_module ch_a (-1) 0))) = 1 \<and>
   tonecurve_nodes (params (dt_iop_tonecurve_motion_notify example_alloc
       \<lparr>event_x = 65, event_y = 65, button1 = True\<rparr> (example_module ch_a (-1) 0))) ch_a = 4 \<and>
   take 4 (tonecurve (params (dt_iop_tonecurve_motion_notify example_alloc
       \<lparr>event_x = 65, event_y = 65, button1 = True\<rparr> (example_module ch_a (-1) 0))) ch_a) =
     [\<lparr>node_x = 0, node_y = 0\<rparr>, \<lparr>node_x = 1 / 4, node_y = 3 / 4\<rparr>,
      \<lparr>node_x = 1 / 2, node_y = 1 / 2\<rparr>, \<lparr>node_x = 1, node_y = 1\<rparr>] \<and>
   tonecurve_nodes (params full_module) ch_L = 20 \<and>
   tonecurve (params (dt_iop_tonecurve_motion_notify example_alloc
       \<lparr>event_x = 65, event_y = 65, button1 = True\<rparr> full_module)) = tonecurve (params full_module) \<and>
   tonecurve_nodes (params (dt_iop_tonecurve_motion_notify example_alloc
       \<lparr>event_x = 65, event_y = 65, button1 = True\<rparr> full_module)) ch_L = 20"
proof -
  have mx: "motion_mx example_alloc \<lparr>event_x = 65, event_y = 65, button1 = True\<rparr> = 1 / 4"
    "motion_my example_alloc \<lparr>event_x = 65, event_y = 65, button1 = True\<rparr> = 3 / 4"
    using example_pointer [of "1/4" "3/4" True] by (simp_all add: CLAMP_def)
  have m: "channel (gui_data (example_module ch_a (-1) 0)) = ch_a"
    "selected (gui_data (example_module ch_a (-1) 0)) = -1"
    "tonecurve_autoscale_ab (params (example_module ch_a (-1) 0)) = 0"
    "tonecurve_nodes (params (example_module ch_a (-1) 0)) ch_a = 3"
    "tonecurve (params (example_module ch_a (-1) 0)) ch_a = node_array [(0, 0), (0.5, 0.5), (1, 1)]"
    by (simp_all add: example_module_def default_params_def)
  have f: "channel (gui_data full_module) = ch_L"
    "selected (gui_data full_module) = -1"
    "tonecurve_nodes (params full_module) ch_L = 20"
    "length (tonecurve (params full_module) ch_L) = DT_IOP_TONECURVE_MAXNODES"
    by (simp_all add: full_module_def DT_IOP_TONECURVE_MAXNODES_def)
  note n = node_array_3 DT_IOP_TONECURVE_MAXNODES_def
  show ?thesis
    using drag_inserts_node [where self = "example_module ch_a (-1) 0"
        and ev = "\<lparr>event_x = 65, event_y = 65, button1 = True\<rparr>" and a = example_alloc]
      drag_inserts_node [where self = full_module
        and ev = "\<lparr>event_x = 65, event_y = 65, button1 = True\<rparr>" and a = example_alloc]
    by (simp add: mx m f n)
qed

text \<open>
  Claim C5 as stated fails on the default parameters: on channel a, which autoscale locks,
  with button 1 held, the selection \<open>-1\<close> and three nodes, a pointer move to \<open>(1/4, 3/4)\<close>
  inserts nothing; the count stays 3 and the selection \<open>-1\<close>.
\<close>

theorem drag_inserts_node_counterexample:
  "button1 \<lparr>event_x = 65, event_y = 65, button1 = True\<rparr> \<and>
   selected (gui_data (example_module ch_a (-1) 1)) = -1 \<and>
   tonecurve_nodes (params (example_module ch_a (-1) 1)) ch_a = 3 \<and>
   tonecurve_nodes (params (dt_iop_tonecurve_motion_notify example_alloc
       \<lparr>event_x = 65, event_y = 65, button1 = True\<rparr> (example_module ch_a (-1) 1))) ch_a = 3 \<and>
   selected (gui_data (dt_iop_tonecurve_motion_notify example_alloc
       \<lparr>event_x = 65, event_y = 65, button1 = True\<rparr> (example_module ch_a (-1) 1))) = -1 \<and>
   tonecurve (params (dt_iop_tonecurve_motion_notify example_alloc
       \<lparr>event_x = 65, event_y = 65, button1 = True\<rparr> (example_module ch_a (-1) 1))) ch_a =
     tonecurve (params (example_module ch_a (-1) 1)) ch_a"
  by (simp add: editor_eval)

subsection \<open>The order of the nodes under the three mutations\<close>

lemma move_keeps_order:
  assumes inc: "sorted_wrt (<) (map node_x (take n tc))" and sel: "sel < n" and n: "n \<le> length tc"
    and left: "0 < sel \<longrightarrow> node_x (tc ! (sel - 1)) < mx"
    and right: "sel + 1 < n \<longrightarrow> mx < node_x (tc ! (sel + 1))"
  shows "sorted_wrt (<) (map node_x (take n (tc[sel := \<lparr>node_x = mx, node_y = my\<rparr>])))"
proof -
  let ?xs = "map node_x (take n tc)"
  have "map node_x (take n (tc[sel := \<lparr>node_x = mx, node_y = my\<rparr>])) = ?xs[sel := mx]"
    by (simp add: take_update_swap map_update)
  moreover have "sorted_wrt (<) (?xs[sel := mx])"
    using inc by (rule increasing_update) (use sel n left right in auto)
  ultimately show ?thesis by simp
qed

lemma delete_keeps_order:
  assumes inc: "sorted_wrt (<) (map node_x (take n tc))" and sel: "sel < n" and n: "n \<le> length tc"
  shows "sorted_wrt (<) (map node_x (take (n - 1) (shift_down sel n (tc[sel := v]))))"
proof -
  let ?xs = "map node_x (take n tc)"
  have "take (n - 1) (shift_down sel n (tc[sel := v])) =
          take sel (tc[sel := v]) @ drop (Suc sel) (take n (tc[sel := v]))"
    using sel n by (intro shift_down_take) simp_all
  also have "\<dots> = take sel tc @ drop (Suc sel) (take n tc)"
  proof -
    have "drop (Suc sel) (take n (tc[sel := v])) = drop (Suc sel) (take n tc)"
      by (simp add: take_update_swap)
    then show ?thesis by simp
  qed
  finally have "map node_x (take (n - 1) (shift_down sel n (tc[sel := v]))) =
          take sel ?xs @ drop (Suc sel) ?xs"
    using sel by (simp add: take_map drop_map min_def)
  moreover have "sorted_wrt (<) (take sel ?xs @ drop (Suc sel) ?xs)"
    using inc by (rule increasing_remove)
  ultimately show ?thesis by simp
qed

lemma insert_keeps_order:
  assumes inc: "sorted_wrt (<) (map node_x (take n tc))" and k: "k \<le> n" and n: "n < length tc"
    and below: "\<forall>i<k. node_x (tc ! i) < mx" and above: "k < n \<longrightarrow> mx < node_x (tc ! k)"
  shows "sorted_wrt (<) (map node_x (take (n + 1)
           ((shift_up k n tc)[k := \<lparr>node_x = mx, node_y = my\<rparr>])))"
proof -
  let ?xs = "map node_x (take n tc)"
  have "take (n + 1) ((shift_up k n tc)[k := \<lparr>node_x = mx, node_y = my\<rparr>]) =
          take k tc @ [\<lparr>node_x = mx, node_y = my\<rparr>] @ drop k (take n tc)"
    using k n by (rule shift_up_take)
  then have "map node_x (take (n + 1) ((shift_up k n tc)[k := \<lparr>node_x = mx, node_y = my\<rparr>])) =
          take k ?xs @ [mx] @ drop k ?xs"
    using k by (simp add: take_map drop_map min_def)
  moreover have "sorted_wrt (<) (take k ?xs @ [mx] @ drop k ?xs)"
    using inc by (rule increasing_insert) (use k n below above in auto)
  ultimately show ?thesis by simp
qed

subsection \<open>One pointer move keeps the editor well formed and its curves in order\<close>

lemma motion_other_channels:
  assumes "c \<noteq> channel (gui_data self)"
  shows "tonecurve (params (dt_iop_tonecurve_motion_notify a ev self)) c = tonecurve (params self) c"
    and "tonecurve_nodes (params (dt_iop_tonecurve_motion_notify a ev self)) c =
           tonecurve_nodes (params self) c"
  using assms by (auto simp add: dt_iop_tonecurve_motion_notify_def Let_def)

lemma motion_length:
  "length (tonecurve (params (dt_iop_tonecurve_motion_notify a ev self)) c) =
     length (tonecurve (params self) c)"
  by (auto simp add: dt_iop_tonecurve_motion_notify_def Let_def)

lemma drag_move_step:
  fixes a :: GtkAllocation and ev :: GdkEventMotion and self :: dt_iop_module_t
  defines "ch \<equiv> channel (gui_data self)"
  defines "self' \<equiv> dt_iop_tonecurve_motion_notify a ev self"
  assumes ok: "editor_ok self"
    and editable: "\<not> (tonecurve_autoscale_ab (params self) \<noteq> 0 \<and> ch \<noteq> ch_L)"
    and held: "button1 ev" and sel: "selected (gui_data self) \<ge> 0"
  shows "(curve_increasing (params self) ch \<and>
          (tonecurve_nodes (params self) ch > 2 \<or>
           \<not> reaches_neighbour (motion_mx a ev) (selected (gui_data self))
               (tonecurve_nodes (params self) ch) (tonecurve (params self) ch)) \<longrightarrow>
            curve_increasing (params self') ch) \<and>
         0 \<le> tonecurve_nodes (params self') ch \<and> tonecurve_nodes (params self') ch \<le> 20 \<and>
         selected (gui_data self') < tonecurve_nodes (params self') ch"
proof -
  define nodes where "nodes = tonecurve_nodes (params self) ch"
  define tc where "tc = tonecurve (params self) ch"
  define s where "s = nat (selected (gui_data self))"
  define mx where "mx = motion_mx a ev"
  define my where "my = motion_my a ev"
  define tc1 where "tc1 = tc[s := \<lparr>node_x = mx, node_y = my\<rparr>]"
  define gone where "gone \<longleftrightarrow> nodes > 2 \<and>
     ((selected (gui_data self) > 0 \<and> node_x (tc1 ! (s - 1)) \<ge> mx) \<or>
      (selected (gui_data self) < nodes - 1 \<and> node_x (tc1 ! (s + 1)) \<le> mx))"
  have ed: "\<not> (tonecurve_autoscale_ab (params self) \<noteq> 0 \<and> channel (gui_data self) \<noteq> ch_L)"
    using editable by (simp add: ch_def)
  have len: "length tc = 20" and range: "0 \<le> nodes" "nodes \<le> 20"
    and sn: "selected (gui_data self) < nodes"
    using ok by (simp_all add: editor_ok_def tc_def nodes_def ch_def DT_IOP_TONECURVE_MAXNODES_def)
  have s: "s < nat nodes" "int s = selected (gui_data self)" using sel sn by (simp_all add: s_def)
  have n: "nat nodes \<le> length tc" using len range by simp
  have p: "params self' =
           (if gone then set_nodes ch (nodes - 1) (set_tonecurve ch (shift_down s (nat nodes) tc1) (params self))
            else set_tonecurve ch tc1 (params self))"
    unfolding self'_def gone_def tc1_def tc_def nodes_def s_def mx_def my_def ch_def
    by (rule motion_move(1) [OF ed held sel])
  have g: "selected (gui_data self') = (if gone then -2 else selected (gui_data self))"
    unfolding self'_def gone_def tc1_def tc_def nodes_def s_def mx_def my_def ch_def
    by (rule motion_move(2) [OF ed held sel])
  have counts: "0 \<le> tonecurve_nodes (params self') ch \<and> tonecurve_nodes (params self') ch \<le> 20 \<and>
         selected (gui_data self') < tonecurve_nodes (params self') ch"
    using p g sn range by (auto simp add: nodes_def gone_def)
  have order: "curve_increasing (params self') ch"
    if inc: "curve_increasing (params self) ch"
      and more: "nodes > 2 \<or> \<not> reaches_neighbour mx (selected (gui_data self)) nodes tc"
  proof -
    have sorted: "sorted_wrt (<) (map node_x (take (nat nodes) tc))"
      using inc by (simp add: curve_increasing_def nodes_def tc_def)
    show ?thesis
    proof (cases gone)
      case True
      have "sorted_wrt (<) (map node_x (take (nat nodes - 1) (shift_down s (nat nodes) tc1)))"
        unfolding tc1_def using sorted s(1) n by (rule delete_keeps_order)
      moreover have "nat (nodes - 1) = nat nodes - 1" by simp
      ultimately show ?thesis
        using True p by (simp add: curve_increasing_def)
    next
      case False
      have near: "tc1 ! (s - 1) = tc ! (s - 1)" if "0 < s"
        using that by (simp add: tc1_def)
      have far: "tc1 ! (s + 1) = tc ! (s + 1)"
        by (simp add: tc1_def)
      have apart: "\<not> reaches_neighbour mx (selected (gui_data self)) nodes tc"
        using False more near far s(2)
        by (auto simp add: gone_def reaches_neighbour_def s_def)
      have left: "0 < s \<longrightarrow> node_x (tc ! (s - 1)) < mx"
        using apart s(2) by (auto simp add: reaches_neighbour_def s_def)
      have right: "s + 1 < nat nodes \<longrightarrow> mx < node_x (tc ! (s + 1))"
        using apart s(2) by (auto simp add: reaches_neighbour_def s_def)
      have "sorted_wrt (<) (map node_x (take (nat nodes) tc1))"
        unfolding tc1_def using sorted s(1) n left right by (rule move_keeps_order)
      then show ?thesis
        using False p by (simp add: curve_increasing_def nodes_def)
    qed
  qed
  show ?thesis using counts order by (simp add: nodes_def tc_def mx_def)
qed

lemma drag_insert_step:
  fixes a :: GtkAllocation and ev :: GdkEventMotion and self :: dt_iop_module_t
  defines "ch \<equiv> channel (gui_data self)"
  defines "self' \<equiv> dt_iop_tonecurve_motion_notify a ev self"
  assumes ok: "editor_ok self"
    and editable: "\<not> (tonecurve_autoscale_ab (params self) \<noteq> 0 \<and> ch \<noteq> ch_L)"
    and held: "button1 ev" and sel: "selected (gui_data self) = -1"
    and room: "tonecurve_nodes (params self) ch < 20"
  shows "(curve_increasing (params self) ch \<and>
          motion_mx a ev \<notin> set (map node_x
             (take (nat (tonecurve_nodes (params self) ch)) (tonecurve (params self) ch))) \<longrightarrow>
            curve_increasing (params self') ch) \<and>
         0 \<le> tonecurve_nodes (params self') ch \<and> tonecurve_nodes (params self') ch \<le> 20 \<and>
         selected (gui_data self') < tonecurve_nodes (params self') ch"
proof -
  define nodes where "nodes = tonecurve_nodes (params self) ch"
  define tc where "tc = tonecurve (params self) ch"
  define mx where "mx = motion_mx a ev"
  define my where "my = motion_my a ev"
  define k where "k = insert_index mx nodes tc (-1)"
  have ed: "\<not> (tonecurve_autoscale_ab (params self) \<noteq> 0 \<and> channel (gui_data self) \<noteq> ch_L)"
    using editable by (simp add: ch_def)
  have room': "tonecurve_nodes (params self) (channel (gui_data self)) < 20"
    using room by (simp add: ch_def)
  have len: "length tc = 20" and range: "0 \<le> nodes" "nodes \<le> 20"
    using ok by (simp_all add: editor_ok_def tc_def nodes_def ch_def DT_IOP_TONECURVE_MAXNODES_def)
  have n: "nat nodes < length tc" using len room by (simp add: nodes_def)
  have place: "0 \<le> k \<and> k \<le> nodes \<and> (\<forall>i<nat k. node_x (tc ! i) \<le> mx) \<and>
         (k < nodes \<longrightarrow> mx < node_x (tc ! nat k))"
    unfolding k_def using range(1) by (rule insert_index_place)
  have p: "params self' =
           set_nodes ch (nodes + 1)
             (set_tonecurve ch ((shift_up (nat k) (nat nodes) tc)
                [nat k := \<lparr>node_x = mx, node_y = my\<rparr>]) (params self))"
    unfolding self'_def motion_insert(1) [OF ed held sel room']
    by (simp add: k_def tc_def nodes_def ch_def mx_def my_def)
  have g: "selected (gui_data self') = k"
    unfolding self'_def motion_insert(2) [OF ed held sel room']
    by (simp add: k_def tc_def nodes_def ch_def mx_def my_def)
  have counts: "0 \<le> tonecurve_nodes (params self') ch \<and> tonecurve_nodes (params self') ch \<le> 20 \<and>
         selected (gui_data self') < tonecurve_nodes (params self') ch"
    using p g place room range by (simp add: nodes_def)
  have order: "curve_increasing (params self') ch"
    if inc: "curve_increasing (params self) ch"
      and fresh: "mx \<notin> set (map node_x (take (nat nodes) tc))"
  proof -
    have sorted: "sorted_wrt (<) (map node_x (take (nat nodes) tc))"
      using inc by (simp add: curve_increasing_def nodes_def tc_def)
    have below: "\<forall>i<nat k. node_x (tc ! i) < mx"
    proof (intro allI impI)
      fix i assume i: "i < nat k"
      with place have le: "node_x (tc ! i) \<le> mx" by simp
      have "i < nat nodes" using i place by linarith
      then have "take (nat nodes) tc ! i = tc ! i" and "i < length (take (nat nodes) tc)"
        using n by simp_all
      then have "tc ! i \<in> set (take (nat nodes) tc)" by (metis nth_mem)
      then have "node_x (tc ! i) \<in> set (map node_x (take (nat nodes) tc))" by simp
      with fresh have "node_x (tc ! i) \<noteq> mx" by auto
      with le show "node_x (tc ! i) < mx" by simp
    qed
    have above: "nat k < nat nodes \<longrightarrow> mx < node_x (tc ! nat k)"
      using place by auto
    have kn: "nat k \<le> nat nodes" using place by auto
    have "sorted_wrt (<) (map node_x (take (nat nodes + 1)
             ((shift_up (nat k) (nat nodes) tc)[nat k := \<lparr>node_x = mx, node_y = my\<rparr>])))"
      using sorted kn n below above by (rule insert_keeps_order)
    moreover have "nat (nodes + 1) = nat nodes + 1" using range by simp
    ultimately show ?thesis
      using p by (simp add: curve_increasing_def)
  qed
  show ?thesis using counts order by (simp add: nodes_def tc_def mx_def)
qed

text \<open>
  What one pointer move does to the active channel: its node count stays in range, the
  selection stays inside it, and its nodes stay in order when the move is in order.
\<close>

lemma motion_active_channel:
  fixes a :: GtkAllocation and ev :: GdkEventMotion and self :: dt_iop_module_t
  defines "ch \<equiv> channel (gui_data self)"
  defines "self' \<equiv> dt_iop_tonecurve_motion_notify a ev self"
  assumes ok: "editor_ok self"
  shows "(curve_increasing (params self) ch \<and> drag_in_order ch a ev self \<longrightarrow>
            curve_increasing (params self') ch) \<and>
         0 \<le> tonecurve_nodes (params self') ch \<and> tonecurve_nodes (params self') ch \<le> 20 \<and>
         selected (gui_data self') < tonecurve_nodes (params self') ch"
proof -
  define nodes where "nodes = tonecurve_nodes (params self) ch"
  have range: "0 \<le> nodes" "nodes \<le> 20" and sn: "selected (gui_data self) < nodes"
    using ok by (simp_all add: editor_ok_def nodes_def ch_def)
  show ?thesis
  proof (cases "tonecurve_autoscale_ab (params self) \<noteq> 0 \<and> channel (gui_data self) \<noteq> ch_L")
    case True
    then have "self' = self" unfolding self'_def by (intro motion_locked) simp_all
    then show ?thesis using range sn by (simp add: nodes_def)
  next
    case ed: False
    show ?thesis
    proof (cases "button1 ev")
      case False
      have p: "params self' = params self"
        unfolding self'_def using ed False by (rule motion_hover(1))
      have "selected (gui_data self') =
           nearest_node (motion_mx a ev) (motion_my a ev) nodes (tonecurve (params self) ch)"
        unfolding self'_def nodes_def ch_def using ed False by (rule motion_hover(2))
      then have "selected (gui_data self') < nodes"
        using nearest_node_range [of "motion_mx a ev" "motion_my a ev" nodes "tonecurve (params self) ch"]
          range by auto
      then show ?thesis using p range by (simp add: nodes_def)
    next
      case held: True
      show ?thesis
      proof (cases "selected (gui_data self) \<ge> 0")
        case True
        have "drag_in_order ch a ev self \<longrightarrow>
                tonecurve_nodes (params self) ch > 2 \<or>
                \<not> reaches_neighbour (motion_mx a ev) (selected (gui_data self))
                    (tonecurve_nodes (params self) ch) (tonecurve (params self) ch)"
          using ed held True by (auto simp add: drag_in_order_def Let_def ch_def)
        then show ?thesis
          unfolding self'_def ch_def
          using drag_move_step [OF ok ed held True, of a] by (auto simp add: ch_def)
      next
        case neg: False
        show ?thesis
        proof (cases "nodes < 20 \<and> selected (gui_data self) \<ge> -1")
          case True
          then have sel: "selected (gui_data self) = -1" using neg by simp
          have room: "tonecurve_nodes (params self) (channel (gui_data self)) < 20"
            using True by (simp add: nodes_def ch_def)
          have "drag_in_order ch a ev self \<longrightarrow> motion_mx a ev \<notin> set (map node_x
             (take (nat (tonecurve_nodes (params self) ch)) (tonecurve (params self) ch)))"
            using ed held sel room by (auto simp add: drag_in_order_def Let_def ch_def)
          then show ?thesis
            unfolding self'_def ch_def
            using drag_insert_step [OF ok ed held sel room, of a] by (auto simp add: ch_def)
        next
          case False
          have neg': "selected (gui_data self) < 0" using neg by simp
          have no: "\<not> (tonecurve_nodes (params self) (channel (gui_data self)) < 20 \<and>
                      selected (gui_data self) \<ge> -1)"
            using False by (simp add: nodes_def ch_def)
          have "params self' = params self" "selected (gui_data self') = selected (gui_data self)"
            unfolding self'_def using motion_idle [OF ed held neg' no] by simp_all
          then show ?thesis using range sn by (simp add: nodes_def)
        qed
      qed
    qed
  qed
qed

lemma motion_step:
  assumes ok: "editor_ok self" and inc: "curve_increasing (params self) c"
    and ord: "drag_in_order c a ev self"
  shows "editor_ok (dt_iop_tonecurve_motion_notify a ev self) \<and>
         curve_increasing (params (dt_iop_tonecurve_motion_notify a ev self)) c"
proof -
  define ch where "ch = channel (gui_data self)"
  define self' where "self' = dt_iop_tonecurve_motion_notify a ev self"
  have active: "(curve_increasing (params self) ch \<and> drag_in_order ch a ev self \<longrightarrow>
            curve_increasing (params self') ch) \<and>
         0 \<le> tonecurve_nodes (params self') ch \<and> tonecurve_nodes (params self') ch \<le> 20 \<and>
         selected (gui_data self') < tonecurve_nodes (params self') ch"
    unfolding self'_def ch_def using ok by (rule motion_active_channel)
  have other: "tonecurve (params self') c' = tonecurve (params self) c' \<and>
               tonecurve_nodes (params self') c' = tonecurve_nodes (params self) c'" if "c' \<noteq> ch" for c'
    unfolding self'_def using that motion_other_channels [of c' self a ev] by (simp add: ch_def)
  have len: "length (tonecurve (params self') c') = DT_IOP_TONECURVE_MAXNODES" for c'
    unfolding self'_def using ok by (simp add: motion_length editor_ok_def)
  have cnt: "0 \<le> tonecurve_nodes (params self') c' \<and> tonecurve_nodes (params self') c' \<le> 20" for c'
  proof (cases "c' = ch")
    case True then show ?thesis using active by simp
  next
    case False then show ?thesis using other [OF False] ok by (simp add: editor_ok_def)
  qed
  have "channel (gui_data self') = ch" by (simp add: self'_def ch_def)
  then have "editor_ok self'"
    using len cnt active by (simp add: editor_ok_def)
  moreover have "curve_increasing (params self') c"
  proof (cases "c = ch")
    case True then show ?thesis using active inc ord by simp
  next
    case False
    then show ?thesis using other [OF False] inc by (simp add: curve_increasing_def)
  qed
  ultimately show ?thesis by (simp add: self'_def)
qed

subsection \<open>Sequences of pointer moves\<close>

text \<open>
  Claim C3, as the code has it. From a well formed editor state, for every channel whose
  nodes are strictly increasing in x: after any sequence of pointer moves each of which is
  in order for that channel in the state it meets (while the channel is active, a move of
  the selected node to or past the x of a neighbour finds more than two nodes in it, and an
  insertion is at an x that none of its nodes in use has), the nodes of the channel are
  strictly increasing in x.
\<close>

theorem drags_keep_order:
  assumes "editor_ok self" and "curve_increasing (params self) c"
    and "drags_in_order c a evs self"
  shows "curve_increasing (params (fold (dt_iop_tonecurve_motion_notify a) evs self)) c"
  using assms
proof (induction evs arbitrary: self)
  case Nil
  then show ?case by simp
next
  case (Cons ev evs)
  have "editor_ok (dt_iop_tonecurve_motion_notify a ev self) \<and>
        curve_increasing (params (dt_iop_tonecurve_motion_notify a ev self)) c"
    using Cons.prems by (intro motion_step) simp_all
  then show ?case using Cons.IH Cons.prems(3) by simp
qed

lemma example_drag_run:
  "fold (dt_iop_tonecurve_motion_notify example_alloc) example_drag (example_module ch_a (-1) 0) =
     \<lparr>params = set_nodes ch_a 3 (set_tonecurve ch_a
         (\<lparr>node_x = 0, node_y = 0\<rparr> # \<lparr>node_x = 1 / 4, node_y = 3 / 4\<rparr> # \<lparr>node_x = 1, node_y = 1\<rparr> #
          replicate 17 \<lparr>node_x = 0, node_y = 0\<rparr>)
         (params (example_module ch_a (-1) 0))),
      gui_data = \<lparr>channel = ch_a, selected = 1, mouse_x = 64, mouse_y = 64\<rparr>\<rparr>"
  by (simp add: example_drag_def editor_eval)

lemma example_drag_in_order:
  "drags_in_order ch_a example_alloc example_drag (example_module ch_a (-1) 0)"
  by (simp add: example_drag_def editor_eval)

text \<open>
  The theorem on the example gesture (a move, a deletion and an insertion, all in order),
  and on the default luminance curve of two nodes with node 0 dragged to \<open>(1/4, 1/2)\<close>,
  short of node 1.
\<close>

theorem drags_keep_order_witness:
  "editor_ok (example_module ch_a (-1) 0) \<and>
   curve_increasing (params (example_module ch_a (-1) 0)) ch_a \<and>
   drags_in_order ch_a example_alloc example_drag (example_module ch_a (-1) 0) \<and>
   curve_increasing (params (fold (dt_iop_tonecurve_motion_notify example_alloc)
          example_drag (example_module ch_a (-1) 0))) ch_a \<and>
   take 3 (tonecurve (params (fold (dt_iop_tonecurve_motion_notify example_alloc)
          example_drag (example_module ch_a (-1) 0))) ch_a) =
     [\<lparr>node_x = 0, node_y = 0\<rparr>, \<lparr>node_x = 1 / 4, node_y = 3 / 4\<rparr>, \<lparr>node_x = 1, node_y = 1\<rparr>] \<and>
   editor_ok (example_module ch_L 0 1) \<and>
   curve_increasing (params (example_module ch_L 0 1)) ch_L \<and>
   drags_in_order ch_L example_alloc [\<lparr>event_x = 65, event_y = 129, button1 = True\<rparr>]
     (example_module ch_L 0 1) \<and>
   curve_increasing (params (fold (dt_iop_tonecurve_motion_notify example_alloc)
          [\<lparr>event_x = 65, event_y = 129, button1 = True\<rparr>] (example_module ch_L 0 1))) ch_L \<and>
   take 2 (tonecurve (params (fold (dt_iop_tonecurve_motion_notify example_alloc)
          [\<lparr>event_x = 65, event_y = 129, button1 = True\<rparr>] (example_module ch_L 0 1))) ch_L) =
     [\<lparr>node_x = 1 / 4, node_y = 1 / 2\<rparr>, \<lparr>node_x = 1, node_y = 1\<rparr>]"
proof -
  have ok: "editor_ok (example_module ch_a (-1) 0)"
    by (rule example_module_ok) simp
  have inc: "curve_increasing (params (example_module ch_a (-1) 0)) ch_a"
    by (rule example_module_increasing)
  have "curve_increasing (params (fold (dt_iop_tonecurve_motion_notify example_alloc)
          example_drag (example_module ch_a (-1) 0))) ch_a"
    using ok inc example_drag_in_order by (rule drags_keep_order)
  moreover have "take 3 (tonecurve (params (fold (dt_iop_tonecurve_motion_notify example_alloc)
          example_drag (example_module ch_a (-1) 0))) ch_a) =
     [\<lparr>node_x = 0, node_y = 0\<rparr>, \<lparr>node_x = 1 / 4, node_y = 3 / 4\<rparr>, \<lparr>node_x = 1, node_y = 1\<rparr>]"
    by (simp add: example_drag_run)
  moreover have ok2: "editor_ok (example_module ch_L 0 1)"
    by (rule example_module_ok) simp
  moreover have inc2: "curve_increasing (params (example_module ch_L 0 1)) ch_L"
    by (rule example_module_increasing)
  moreover have ord2: "drags_in_order ch_L example_alloc
      [\<lparr>event_x = 65, event_y = 129, button1 = True\<rparr>] (example_module ch_L 0 1)"
    by (simp add: editor_eval reaches_neighbour_def)
  moreover have "curve_increasing (params (fold (dt_iop_tonecurve_motion_notify example_alloc)
          [\<lparr>event_x = 65, event_y = 129, button1 = True\<rparr>] (example_module ch_L 0 1))) ch_L"
    using ok2 inc2 ord2 by (rule drags_keep_order)
  moreover have "take 2 (tonecurve (params (fold (dt_iop_tonecurve_motion_notify example_alloc)
          [\<lparr>event_x = 65, event_y = 129, button1 = True\<rparr>] (example_module ch_L 0 1))) ch_L) =
     [\<lparr>node_x = 1 / 4, node_y = 1 / 2\<rparr>, \<lparr>node_x = 1, node_y = 1\<rparr>]"
    by (simp add: editor_eval)
  ultimately show ?thesis using ok inc example_drag_in_order by simp
qed

text \<open>
  Claim C3 as stated fails on the default luminance curve \<open>(0,0), (1,1)\<close>: with node 0
  selected, one drag to \<open>x = 1\<close> moves it onto the x of node 1; the channel has only two
  nodes, so the handler deletes nothing and the two nodes share their x.
\<close>

theorem drags_keep_order_counterexample:
  "curve_increasing (params (example_module ch_L 0 1)) ch_L \<and>
   tonecurve_nodes (params (dt_iop_tonecurve_motion_notify example_alloc
        \<lparr>event_x = 257, event_y = 129, button1 = True\<rparr> (example_module ch_L 0 1))) ch_L = 2 \<and>
   take 2 (tonecurve (params (dt_iop_tonecurve_motion_notify example_alloc
        \<lparr>event_x = 257, event_y = 129, button1 = True\<rparr> (example_module ch_L 0 1))) ch_L) =
     [\<lparr>node_x = 1, node_y = 1 / 2\<rparr>, \<lparr>node_x = 1, node_y = 1\<rparr>] \<and>
   \<not> curve_increasing (params (dt_iop_tonecurve_motion_notify example_alloc
        \<lparr>event_x = 257, event_y = 129, button1 = True\<rparr> (example_module ch_L 0 1))) ch_L"
proof -
  let ?ev = "\<lparr>event_x = 257, event_y = 129, button1 = True\<rparr>"
  have mx: "motion_mx example_alloc ?ev = 1" "motion_my example_alloc ?ev = 1 / 2"
    using example_pointer [of 1 "1/2" True] by (simp_all add: CLAMP_def)
  have p: "params (dt_iop_tonecurve_motion_notify example_alloc ?ev (example_module ch_L 0 1)) =
           set_tonecurve ch_L ((node_array [(0, 0), (1, 1)])[0 := \<lparr>node_x = 1, node_y = 1 / 2\<rparr>])
             (params (example_module ch_L 0 1))"
    by (simp add: dt_iop_tonecurve_motion_notify_def Let_def example_module_def
        default_params_def mx)
  show ?thesis
    unfolding p
    by (simp add: example_module_increasing)
       (simp add: curve_increasing_def example_module_def default_params_def node_array_2
          eval_nat_numeral)
qed

text \<open>
  The condition on an insertion cannot be dropped either: on the default luminance curve
  \<open>(0,0), (1,1)\<close>, with no node selected, pressing the button at \<open>(0, 1/2)\<close> inserts a
  node at index 1 whose x is that of node 0.
\<close>

lemma insert_on_existing_x:
  "selected (gui_data (dt_iop_tonecurve_motion_notify example_alloc
       \<lparr>event_x = 1, event_y = 129, button1 = True\<rparr> (example_module ch_L (-1) 1))) = 1 \<and>
   take 3 (tonecurve (params (dt_iop_tonecurve_motion_notify example_alloc
       \<lparr>event_x = 1, event_y = 129, button1 = True\<rparr> (example_module ch_L (-1) 1))) ch_L) =
     [\<lparr>node_x = 0, node_y = 0\<rparr>, \<lparr>node_x = 0, node_y = 1 / 2\<rparr>, \<lparr>node_x = 1, node_y = 1\<rparr>] \<and>
   \<not> curve_increasing (params (dt_iop_tonecurve_motion_notify example_alloc
       \<lparr>event_x = 1, event_y = 129, button1 = True\<rparr> (example_module ch_L (-1) 1))) ch_L"
  by (simp add: editor_eval curve_increasing_def replicate_18)

subsection \<open>A drag onto the x of a neighbour\<close>

lemma delete_take:
  assumes "sel < n" "n \<le> length tc"
  shows "take (n - 1) (shift_down sel n (tc[sel := v])) = take sel tc @ drop (Suc sel) (take n tc)"
proof -
  have "take (n - 1) (shift_down sel n (tc[sel := v])) =
          take sel (tc[sel := v]) @ drop (Suc sel) (take n (tc[sel := v]))"
    using assms by (intro shift_down_take) simp_all
  moreover have "drop (Suc sel) (take n (tc[sel := v])) = drop (Suc sel) (take n tc)"
    by (simp add: take_update_swap)
  ultimately show ?thesis by simp
qed

text \<open>
  Claim C10, as the code has it. The test for a changed order is not strict: on a channel
  that takes edits and has more than two nodes, a drag that puts the selected node at an x
  equal to (or beyond) that of a neighbour deletes the dragged node, the later nodes moving
  down, and sets the selection to \<open>-2\<close>. Consequently, on such a channel whose nodes were
  strictly increasing in x, no two nodes in use share an x after a drag of the selected
  node.
\<close>

theorem drag_onto_neighbour_deletes:
  fixes a :: GtkAllocation and ev :: GdkEventMotion and self :: dt_iop_module_t
  defines "ch \<equiv> channel (gui_data self)"
  defines "tc \<equiv> tonecurve (params self) ch"
  defines "nodes \<equiv> tonecurve_nodes (params self) ch"
  defines "s \<equiv> nat (selected (gui_data self))"
  defines "self' \<equiv> dt_iop_tonecurve_motion_notify a ev self"
  assumes ok: "editor_ok self"
    and editable: "\<not> (tonecurve_autoscale_ab (params self) \<noteq> 0 \<and> ch \<noteq> ch_L)"
    and held: "button1 ev" and sel: "selected (gui_data self) \<ge> 0"
    and more: "nodes > 2"
  shows "((0 < s \<and> motion_mx a ev \<le> node_x (tc ! (s - 1))) \<or>
          (s + 1 < nat nodes \<and> node_x (tc ! (s + 1)) \<le> motion_mx a ev) \<longrightarrow>
            tonecurve_nodes (params self') ch = nodes - 1 \<and>
            selected (gui_data self') = -2 \<and>
            take (nat nodes - 1) (tonecurve (params self') ch) =
              take s tc @ drop (Suc s) (take (nat nodes) tc)) \<and>
         (curve_increasing (params self) ch \<longrightarrow>
            distinct (map node_x (take (nat (tonecurve_nodes (params self') ch))
                                        (tonecurve (params self') ch))))"
proof -
  define mx where "mx = motion_mx a ev"
  define my where "my = motion_my a ev"
  define tc1 where "tc1 = tc[s := \<lparr>node_x = mx, node_y = my\<rparr>]"
  define gone where "gone \<longleftrightarrow> nodes > 2 \<and>
     ((selected (gui_data self) > 0 \<and> node_x (tc1 ! (s - 1)) \<ge> mx) \<or>
      (selected (gui_data self) < nodes - 1 \<and> node_x (tc1 ! (s + 1)) \<le> mx))"
  have ed: "\<not> (tonecurve_autoscale_ab (params self) \<noteq> 0 \<and> channel (gui_data self) \<noteq> ch_L)"
    using editable by (simp add: ch_def)
  have len: "length tc = 20" and range: "0 \<le> nodes" "nodes \<le> 20"
    and sn: "selected (gui_data self) < nodes"
    using ok by (simp_all add: editor_ok_def tc_def nodes_def ch_def DT_IOP_TONECURVE_MAXNODES_def)
  have s: "s < nat nodes" "int s = selected (gui_data self)" using sel sn by (simp_all add: s_def)
  have n: "nat nodes \<le> length tc" using len range by simp
  have p: "params self' =
           (if gone then set_nodes ch (nodes - 1) (set_tonecurve ch (shift_down s (nat nodes) tc1) (params self))
            else set_tonecurve ch tc1 (params self))"
    unfolding self'_def gone_def tc1_def tc_def nodes_def s_def mx_def my_def ch_def
    by (rule motion_move(1) [OF ed held sel])
  have g: "selected (gui_data self') = (if gone then -2 else selected (gui_data self))"
    unfolding self'_def gone_def tc1_def tc_def nodes_def s_def mx_def my_def ch_def
    by (rule motion_move(2) [OF ed held sel])
  have first: "tonecurve_nodes (params self') ch = nodes - 1 \<and>
            selected (gui_data self') = -2 \<and>
            take (nat nodes - 1) (tonecurve (params self') ch) =
              take s tc @ drop (Suc s) (take (nat nodes) tc)"
    if touch: "(0 < s \<and> mx \<le> node_x (tc ! (s - 1))) \<or> (s + 1 < nat nodes \<and> node_x (tc ! (s + 1)) \<le> mx)"
  proof -
    have near: "tc1 ! (s - 1) = tc ! (s - 1)" if "0 < s"
      using that by (simp add: tc1_def)
    have far: "tc1 ! (s + 1) = tc ! (s + 1)"
      by (simp add: tc1_def)
    have gone using touch more near far s(2) by (auto simp add: gone_def)
    moreover have "take (nat nodes - 1) (shift_down s (nat nodes) tc1) =
                   take s tc @ drop (Suc s) (take (nat nodes) tc)"
      unfolding tc1_def using s(1) n by (rule delete_take)
    ultimately show ?thesis using p g by (simp add: nodes_def)
  qed
  have second: "distinct (map node_x (take (nat (tonecurve_nodes (params self') ch))
                                        (tonecurve (params self') ch)))"
    if inc: "curve_increasing (params self) ch"
  proof -
    have "curve_increasing (params self') ch"
      unfolding self'_def ch_def
      using drag_move_step [OF ok ed held sel, of a] inc more by (simp add: ch_def nodes_def)
    then show ?thesis
      by (simp add: curve_increasing_def strict_sorted_iff)
  qed
  show ?thesis using first second by (simp add: mx_def)
qed

text \<open>
  The theorem on the default curve of channel a with autoscale off: the middle node
  dragged to \<open>x = 0\<close>, exactly the x of node 0.
\<close>

theorem drag_onto_neighbour_deletes_witness:
  "motion_mx example_alloc \<lparr>event_x = 1, event_y = 65, button1 = True\<rparr> = 0 \<and>
   node_x (tonecurve (params (example_module ch_a 1 0)) ch_a ! 0) = 0 \<and>
   tonecurve_nodes (params (dt_iop_tonecurve_motion_notify example_alloc
       \<lparr>event_x = 1, event_y = 65, button1 = True\<rparr> (example_module ch_a 1 0))) ch_a = 2 \<and>
   selected (gui_data (dt_iop_tonecurve_motion_notify example_alloc
       \<lparr>event_x = 1, event_y = 65, button1 = True\<rparr> (example_module ch_a 1 0))) = -2 \<and>
   take 2 (tonecurve (params (dt_iop_tonecurve_motion_notify example_alloc
       \<lparr>event_x = 1, event_y = 65, button1 = True\<rparr> (example_module ch_a 1 0))) ch_a) =
     [\<lparr>node_x = 0, node_y = 0\<rparr>, \<lparr>node_x = 1, node_y = 1\<rparr>] \<and>
   distinct (map node_x (take 2 (tonecurve (params (dt_iop_tonecurve_motion_notify example_alloc
       \<lparr>event_x = 1, event_y = 65, button1 = True\<rparr> (example_module ch_a 1 0))) ch_a)))"
proof -
  let ?ev = "\<lparr>event_x = 1, event_y = 65, button1 = True\<rparr>"
  have mx: "motion_mx example_alloc ?ev = 0"
    using example_pointer(1) [of 0 "3/4" True] by (simp add: CLAMP_def)
  have m: "channel (gui_data (example_module ch_a 1 0)) = ch_a"
    "selected (gui_data (example_module ch_a 1 0)) = 1"
    "tonecurve_autoscale_ab (params (example_module ch_a 1 0)) = 0"
    "tonecurve_nodes (params (example_module ch_a 1 0)) ch_a = 3"
    "tonecurve (params (example_module ch_a 1 0)) ch_a = node_array [(0, 0), (0.5, 0.5), (1, 1)]"
    by (simp_all add: example_module_def default_params_def)
  have ok: "editor_ok (example_module ch_a 1 0)"
    by (rule example_module_ok) simp
  have inc: "curve_increasing (params (example_module ch_a 1 0)) ch_a"
    by (rule example_module_increasing)
  show ?thesis
    using drag_onto_neighbour_deletes [of "example_module ch_a 1 0" ?ev example_alloc] ok inc
    by (simp add: mx m node_array_3)
qed

text \<open>
  Claim C10 as stated fails on the default luminance curve of two nodes: node 1 dragged to
  \<open>x = 0\<close>, exactly the x of node 0, is not deleted, and after the drag both nodes have
  \<open>x = 0\<close>.
\<close>

theorem drag_onto_neighbour_deletes_counterexample:
  "node_x (tonecurve (params (example_module ch_L 1 1)) ch_L ! 0) =
     motion_mx example_alloc \<lparr>event_x = 1, event_y = 129, button1 = True\<rparr> \<and>
   tonecurve_nodes (params (dt_iop_tonecurve_motion_notify example_alloc
       \<lparr>event_x = 1, event_y = 129, button1 = True\<rparr> (example_module ch_L 1 1))) ch_L = 2 \<and>
   selected (gui_data (dt_iop_tonecurve_motion_notify example_alloc
       \<lparr>event_x = 1, event_y = 129, button1 = True\<rparr> (example_module ch_L 1 1))) = 1 \<and>
   take 2 (tonecurve (params (dt_iop_tonecurve_motion_notify example_alloc
       \<lparr>event_x = 1, event_y = 129, button1 = True\<rparr> (example_module ch_L 1 1))) ch_L) =
     [\<lparr>node_x = 0, node_y = 0\<rparr>, \<lparr>node_x = 0, node_y = 1 / 2\<rparr>] \<and>
   \<not> distinct (map node_x (take 2 (tonecurve (params (dt_iop_tonecurve_motion_notify example_alloc
       \<lparr>event_x = 1, event_y = 129, button1 = True\<rparr> (example_module ch_L 1 1))) ch_L)))"
  by (simp add: editor_eval)

subsection \<open>Chroma channels locked by autoscale\<close>

text \<open>
  Claim C6, as the code has it. While autoscale is on and the active channel is a or b, a
  pointer move and a scroll change nothing at all: the nodes, the node counts and the
  coordinates are as before, and so are the selection and the stored pointer position.
\<close>

theorem locked_chroma_is_inert:
  assumes "tonecurve_autoscale_ab (params self) \<noteq> 0" and "channel (gui_data self) \<noteq> ch_L"
  shows "dt_iop_tonecurve_motion_notify a ev self = self \<and> scrolled direction self = self"
  using assms by (simp add: motion_locked scrolled_def Let_def)

text \<open>
  The theorem on the default parameters (autoscale on): a drag with a node of channel a
  selected, a drag with no node selected on channel b, and a scroll.
\<close>

theorem locked_chroma_is_inert_witness:
  "dt_iop_tonecurve_motion_notify example_alloc \<lparr>event_x = 193, event_y = 65, button1 = True\<rparr>
     (example_module ch_a 1 1) = example_module ch_a 1 1 \<and>
   dt_iop_tonecurve_motion_notify example_alloc \<lparr>event_x = 65, event_y = 65, button1 = True\<rparr>
     (example_module ch_b (-1) 1) = example_module ch_b (-1) 1 \<and>
   scrolled GDK_SCROLL_UP (example_module ch_a 1 1) = example_module ch_a 1 1"
  using locked_chroma_is_inert [of "example_module ch_a 1 1" example_alloc
      "\<lparr>event_x = 193, event_y = 65, button1 = True\<rparr>" GDK_SCROLL_UP]
    locked_chroma_is_inert [of "example_module ch_b (-1) 1" example_alloc
      "\<lparr>event_x = 65, event_y = 65, button1 = True\<rparr>" GDK_SCROLL_UP]
  by (simp add: example_module_def)

text \<open>
  Claim C6 as stated fails in its first part: on channel a with autoscale on, a pointer move
  without the button onto the middle node \<open>(1/2, 1/2)\<close> does not select it (the hover loop
  would find node 1; the selection stays \<open>-1\<close>), while the same move with autoscale off
  selects node 1.
\<close>

theorem locked_chroma_is_inert_counterexample:
  "nearest_node (motion_mx example_alloc \<lparr>event_x = 129, event_y = 129, button1 = False\<rparr>)
     (motion_my example_alloc \<lparr>event_x = 129, event_y = 129, button1 = False\<rparr>)
     (tonecurve_nodes (params (example_module ch_a (-1) 1)) ch_a)
     (tonecurve (params (example_module ch_a (-1) 1)) ch_a) = 1 \<and>
   selected (gui_data (dt_iop_tonecurve_motion_notify example_alloc
     \<lparr>event_x = 129, event_y = 129, button1 = False\<rparr> (example_module ch_a (-1) 1))) = -1 \<and>
   selected (gui_data (dt_iop_tonecurve_motion_notify example_alloc
     \<lparr>event_x = 129, event_y = 129, button1 = False\<rparr> (example_module ch_a (-1) 0))) = 1"
  by (simp add: editor_eval)

end
